theory Spec2Isabelle
  imports Main "HOL-Library.Word"
begin

unbundle bit_operations_syntax

section \<open>Bytes and buffers\<close>

type_synonym byte = "8 word"
type_synonym bytes = "byte list"

subsection \<open>Big-endian addition (gcry_drbg_add_buf, drbg.c 339--368)\<close>

text \<open>
  The destination and the addend are byte arrays; \<open>dstptr\<close> and \<open>addptr\<close> are
  the indices the two C pointers stand at (they start at the last byte and walk
  towards index 0, so they are integers: after the last step a pointer stands one
  before the array and is not dereferenced any more). \<open>remainder\<close> is the
  \<^verbatim>\<open>unsigned int\<close> carry; it never exceeds 511, so no wrap-around is involved,
  \<^verbatim>\<open>& 0xff\<close> is \<open>mod 256\<close> and \<^verbatim>\<open>>>= 8\<close> is \<open>div 256\<close>.
\<close>

fun add_buf_loop1 :: "bytes \<Rightarrow> bytes \<Rightarrow> int \<Rightarrow> int \<Rightarrow> nat \<Rightarrow> nat \<Rightarrow> bytes \<times> int \<times> nat" where
  "add_buf_loop1 dst add dstptr addptr remainder 0 = (dst, dstptr, remainder)"
| "add_buf_loop1 dst add dstptr addptr remainder (Suc len) =
     (let remainder = remainder + (unat (dst ! nat dstptr) + unat (add ! nat addptr));
          dst = dst[nat dstptr := of_nat (remainder mod 256)];
          remainder = remainder div 256
      in add_buf_loop1 dst add (dstptr - 1) (addptr - 1) remainder len)"

fun add_buf_loop2 :: "bytes \<Rightarrow> int \<Rightarrow> nat \<Rightarrow> nat \<Rightarrow> bytes" where
  "add_buf_loop2 dst dstptr remainder 0 = dst"
| "add_buf_loop2 dst dstptr remainder (Suc len) =
     (if remainder > 0 then
        (let remainder = unat (dst ! nat dstptr) + 1;
             dst = dst[nat dstptr := of_nat (remainder mod 256)];
             remainder = remainder div 256
         in add_buf_loop2 dst (dstptr - 1) remainder len)
      else dst)"

definition gcry_drbg_add_buf :: "bytes \<Rightarrow> nat \<Rightarrow> bytes \<Rightarrow> nat \<Rightarrow> bytes" where
  "gcry_drbg_add_buf dst dstlen add addlen =
     (let (dst, dstptr, remainder) =
            add_buf_loop1 dst add (int dstlen - 1) (int addlen - 1) 0 addlen
      in add_buf_loop2 dst dstptr remainder (dstlen - addlen))"

section \<open>Constants of the headers\<close>

text \<open>
  Error codes are the \<^verbatim>\<open>gpg_err_code_t\<close> values of libgpg-error; a function that
  returns one returns it as an integer, 0 meaning success (every caller tests
  \<^verbatim>\<open>if (ret)\<close>). gcry_drbg_get_entropy returns a plain \<^verbatim>\<open>int\<close>, -1 on failure.
\<close>

type_synonym gpg_err_code_t = int

definition GPG_ERR_NO_ERROR :: gpg_err_code_t where "GPG_ERR_NO_ERROR = 0"
definition GPG_ERR_GENERAL :: gpg_err_code_t where "GPG_ERR_GENERAL = 1"
definition GPG_ERR_INV_ARG :: gpg_err_code_t where "GPG_ERR_INV_ARG = 45"
definition GPG_ERR_ENOMEM :: gpg_err_code_t where "GPG_ERR_ENOMEM = 32854"

text \<open>
  Modelled from the spec: the flag bits of section 6 (one bit per mechanism family
  and per primitive, a prediction-resistance bit, and the masks built from them).
  Their declarations are in the public header, which is not among the sources; the
  bit positions below are the header's.
\<close>

type_synonym u32 = "32 word"

definition GCRY_DRBG_CTRAES :: u32 where "GCRY_DRBG_CTRAES = 0x1"
definition GCRY_DRBG_CTRSERPENT :: u32 where "GCRY_DRBG_CTRSERPENT = 0x2"
definition GCRY_DRBG_CTRTWOFISH :: u32 where "GCRY_DRBG_CTRTWOFISH = 0x4"
definition GCRY_DRBG_HASHSHA1 :: u32 where "GCRY_DRBG_HASHSHA1 = 0x10"
definition GCRY_DRBG_HASHSHA224 :: u32 where "GCRY_DRBG_HASHSHA224 = 0x20"
definition GCRY_DRBG_HASHSHA256 :: u32 where "GCRY_DRBG_HASHSHA256 = 0x40"
definition GCRY_DRBG_HASHSHA384 :: u32 where "GCRY_DRBG_HASHSHA384 = 0x80"
definition GCRY_DRBG_HASHSHA512 :: u32 where "GCRY_DRBG_HASHSHA512 = 0x100"
definition GCRY_DRBG_HMAC :: u32 where "GCRY_DRBG_HMAC = 0x1000"
definition GCRY_DRBG_SYM128 :: u32 where "GCRY_DRBG_SYM128 = 0x2000"
definition GCRY_DRBG_SYM192 :: u32 where "GCRY_DRBG_SYM192 = 0x4000"
definition GCRY_DRBG_SYM256 :: u32 where "GCRY_DRBG_SYM256 = 0x8000"
definition GCRY_DRBG_PREDICTION_RESIST :: u32 where "GCRY_DRBG_PREDICTION_RESIST = 0x10000000"

definition GCRY_DRBG_CTR_MASK :: u32 where
  "GCRY_DRBG_CTR_MASK = GCRY_DRBG_CTRAES OR GCRY_DRBG_CTRSERPENT OR GCRY_DRBG_CTRTWOFISH"

definition GCRY_DRBG_HASH_MASK :: u32 where
  "GCRY_DRBG_HASH_MASK = GCRY_DRBG_HASHSHA1 OR GCRY_DRBG_HASHSHA224 OR GCRY_DRBG_HASHSHA256
     OR GCRY_DRBG_HASHSHA384 OR GCRY_DRBG_HASHSHA512"

definition GCRY_DRBG_TYPE_MASK :: u32 where
  "GCRY_DRBG_TYPE_MASK = GCRY_DRBG_HMAC OR GCRY_DRBG_SYM128 OR GCRY_DRBG_SYM192 OR GCRY_DRBG_SYM256"

definition GCRY_DRBG_CIPHER_MASK :: u32 where
  "GCRY_DRBG_CIPHER_MASK = GCRY_DRBG_CTR_MASK OR GCRY_DRBG_HASH_MASK OR GCRY_DRBG_TYPE_MASK"

text \<open>The backend algorithm a core names (the \<^verbatim>\<open>backend_cipher\<close> field).\<close>

datatype backend_cipher =
  GCRY_MD_SHA1 | GCRY_MD_SHA256 | GCRY_MD_SHA384 | GCRY_MD_SHA512
  | GCRY_CIPHER_AES128 | GCRY_CIPHER_AES192 | GCRY_CIPHER_AES256

section \<open>Data structures (drbg.c 135--187)\<close>

text \<open>
  \<^verbatim>\<open>drbg->core\<close> always points at one of the eleven entries of the constant table
  gcry_drbg_cores (gcry_drbg_instantiate sets it, nothing else does), so a core is
  modelled by the entry it points at; the four functions below read the entry's
  fields as the table lists them.
\<close>

datatype gcry_drbg_core =
  CORE_HASH_SHA1 | CORE_HASH_SHA256 | CORE_HASH_SHA384 | CORE_HASH_SHA512
  | CORE_HMAC_SHA1 | CORE_HMAC_SHA256 | CORE_HMAC_SHA384 | CORE_HMAC_SHA512
  | CORE_CTR_AES128 | CORE_CTR_AES192 | CORE_CTR_AES256

definition gcry_drbg_cores :: "gcry_drbg_core list" where
  "gcry_drbg_cores =
     [CORE_HASH_SHA1, CORE_HASH_SHA256, CORE_HASH_SHA384, CORE_HASH_SHA512,
      CORE_HMAC_SHA1, CORE_HMAC_SHA256, CORE_HMAC_SHA384, CORE_HMAC_SHA512,
      CORE_CTR_AES128, CORE_CTR_AES192, CORE_CTR_AES256]"

fun core_flags :: "gcry_drbg_core \<Rightarrow> u32" where
  "core_flags CORE_HASH_SHA1 = GCRY_DRBG_HASHSHA1"
| "core_flags CORE_HASH_SHA256 = GCRY_DRBG_HASHSHA256"
| "core_flags CORE_HASH_SHA384 = GCRY_DRBG_HASHSHA384"
| "core_flags CORE_HASH_SHA512 = GCRY_DRBG_HASHSHA512"
| "core_flags CORE_HMAC_SHA1 = GCRY_DRBG_HASHSHA1 OR GCRY_DRBG_HMAC"
| "core_flags CORE_HMAC_SHA256 = GCRY_DRBG_HASHSHA256 OR GCRY_DRBG_HMAC"
| "core_flags CORE_HMAC_SHA384 = GCRY_DRBG_HASHSHA384 OR GCRY_DRBG_HMAC"
| "core_flags CORE_HMAC_SHA512 = GCRY_DRBG_HASHSHA512 OR GCRY_DRBG_HMAC"
| "core_flags CORE_CTR_AES128 = GCRY_DRBG_CTRAES OR GCRY_DRBG_SYM128"
| "core_flags CORE_CTR_AES192 = GCRY_DRBG_CTRAES OR GCRY_DRBG_SYM192"
| "core_flags CORE_CTR_AES256 = GCRY_DRBG_CTRAES OR GCRY_DRBG_SYM256"

fun core_statelen :: "gcry_drbg_core \<Rightarrow> nat" where
  "core_statelen CORE_HASH_SHA1 = 55"
| "core_statelen CORE_HASH_SHA256 = 55"
| "core_statelen CORE_HASH_SHA384 = 111"
| "core_statelen CORE_HASH_SHA512 = 111"
| "core_statelen CORE_HMAC_SHA1 = 20"
| "core_statelen CORE_HMAC_SHA256 = 32"
| "core_statelen CORE_HMAC_SHA384 = 48"
| "core_statelen CORE_HMAC_SHA512 = 64"
| "core_statelen CORE_CTR_AES128 = 32"
| "core_statelen CORE_CTR_AES192 = 40"
| "core_statelen CORE_CTR_AES256 = 48"

fun core_blocklen_bytes :: "gcry_drbg_core \<Rightarrow> nat" where
  "core_blocklen_bytes CORE_HASH_SHA1 = 20"
| "core_blocklen_bytes CORE_HASH_SHA256 = 32"
| "core_blocklen_bytes CORE_HASH_SHA384 = 48"
| "core_blocklen_bytes CORE_HASH_SHA512 = 64"
| "core_blocklen_bytes CORE_HMAC_SHA1 = 20"
| "core_blocklen_bytes CORE_HMAC_SHA256 = 32"
| "core_blocklen_bytes CORE_HMAC_SHA384 = 48"
| "core_blocklen_bytes CORE_HMAC_SHA512 = 64"
| "core_blocklen_bytes CORE_CTR_AES128 = 16"
| "core_blocklen_bytes CORE_CTR_AES192 = 16"
| "core_blocklen_bytes CORE_CTR_AES256 = 16"

fun core_backend_cipher :: "gcry_drbg_core \<Rightarrow> backend_cipher" where
  "core_backend_cipher CORE_HASH_SHA1 = GCRY_MD_SHA1"
| "core_backend_cipher CORE_HASH_SHA256 = GCRY_MD_SHA256"
| "core_backend_cipher CORE_HASH_SHA384 = GCRY_MD_SHA384"
| "core_backend_cipher CORE_HASH_SHA512 = GCRY_MD_SHA512"
| "core_backend_cipher CORE_HMAC_SHA1 = GCRY_MD_SHA1"
| "core_backend_cipher CORE_HMAC_SHA256 = GCRY_MD_SHA256"
| "core_backend_cipher CORE_HMAC_SHA384 = GCRY_MD_SHA384"
| "core_backend_cipher CORE_HMAC_SHA512 = GCRY_MD_SHA512"
| "core_backend_cipher CORE_CTR_AES128 = GCRY_CIPHER_AES128"
| "core_backend_cipher CORE_CTR_AES192 = GCRY_CIPHER_AES192"
| "core_backend_cipher CORE_CTR_AES256 = GCRY_CIPHER_AES256"

text \<open>
  A byte-string chain node: the buffer pointer (None for NULL, otherwise the bytes
  it points at), the length, and the next node (None for NULL). Modelled from the
  spec (section 4.1, the header that declares the struct and gcry_drbg_string_fill
  is not among the sources): filling a node sets its buffer and length and clears
  its next pointer.
\<close>

datatype gcry_drbg_string =
  Str (str_buf: "bytes option") (str_len: nat) (str_next: "gcry_drbg_string option")

definition gcry_drbg_string_fill :: "bytes option \<Rightarrow> nat \<Rightarrow> gcry_drbg_string" where
  "gcry_drbg_string_fill buf len = Str buf len None"

text \<open>
  The bytes a consumer reads when it walks a chain node by node, \<open>str_len\<close> bytes
  from each buffer. (A NULL buffer with a positive length is rejected by
  gcry_drbg_generate before any read; the model reads no byte from it.)
\<close>

fun string_bytes :: "gcry_drbg_string \<Rightarrow> bytes" where
  "string_bytes (Str b l n) =
     (case b of None \<Rightarrow> [] | Some x \<Rightarrow> take l x)
     @ (case n of None \<Rightarrow> [] | Some s \<Rightarrow> string_bytes s)"

definition chain_bytes :: "gcry_drbg_string option \<Rightarrow> bytes" where
  "chain_bytes p = (case p of None \<Rightarrow> [] | Some s \<Rightarrow> string_bytes s)"

text \<open>\<^verbatim>\<open>while (s->next) s = s->next; s->next = &n;\<close> on a chain: the last node gets \<open>n\<close> as next.\<close>

fun string_splice :: "gcry_drbg_string \<Rightarrow> gcry_drbg_string \<Rightarrow> gcry_drbg_string" where
  "string_splice (Str b l None) n = Str b l (Some n)"
| "string_splice (Str b l (Some s)) n = Str b l (Some (string_splice s n))"

text \<open>The last node of a chain, where the walk \<^verbatim>\<open>while (s->next)\<close> stops.\<close>

fun string_tail :: "gcry_drbg_string \<Rightarrow> gcry_drbg_string" where
  "string_tail (Str b l None) = Str b l None"
| "string_tail (Str b l (Some s)) = string_tail s"

text \<open>\<^verbatim>\<open>for (; NULL != s; s = s->next) n += s->len;\<close>\<close>

fun string_total_len :: "gcry_drbg_string \<Rightarrow> nat" where
  "string_total_len (Str b l n) =
     l + (case n of None \<Rightarrow> 0 | Some s \<Rightarrow> string_total_len s)"

record gcry_drbg_test_data =
  testentropy :: "gcry_drbg_string option"
  fail_seed_source :: bool

datatype gcry_drbg_state_ops = gcry_drbg_hmac_ops | gcry_drbg_hash_ops | gcry_drbg_ctr_ops

text \<open>
  The DRBG handle. V, C and the scratchpad are the byte arrays the three pointers
  point at (the empty list for a NULL or freed pointer); the two one-bit fields are
  booleans; \<open>reseed_ctr\<close> is a \<^verbatim>\<open>size_t\<close>, kept as a natural number and wrapped
  where the code increments it.
\<close>

record gcry_drbg_state =
  V :: bytes
  C :: bytes
  reseed_ctr :: nat
  scratchpad :: bytes
  seeded :: bool
  pr :: bool
  seed_init_pid :: nat
  d_ops :: gcry_drbg_state_ops
  core :: gcry_drbg_core
  test_data :: "gcry_drbg_test_data option"

section \<open>The world outside the DRBG\<close>

text \<open>
  Everything the DRBG calls but does not define: the message digests and the block
  cipher of the library (the record \<open>backend\<close>, which is all the three mechanisms
  call), the allocator and the entropy gatherer. The mathematical functions are
  parameters. Whether a call that can fail does fail is read from a
  schedule: each call of \<^verbatim>\<open>_gcry_md_open\<close>, \<^verbatim>\<open>_gcry_md_setkey\<close>, \<^verbatim>\<open>_gcry_cipher_open\<close>
  and \<^verbatim>\<open>_gcry_cipher_setkey\<close> takes the next code of its list (0 is success, an
  exhausted list means success), each \<^verbatim>\<open>xcalloc_secure\<close> the next flag of
  \<open>calloc_null\<close> (True: the allocation returns NULL). The gatherer is asked once per
  request; \<open>entropy_requests\<close> records the lengths asked for, oldest first.
\<close>

record backend =
  md_open_rc :: "gpg_err_code_t list"
  md_setkey_rc :: "gpg_err_code_t list"
  cipher_open_rc :: "gpg_err_code_t list"
  cipher_setkey_rc :: "gpg_err_code_t list"
  md_digest :: "backend_cipher \<Rightarrow> bytes \<Rightarrow> nat \<Rightarrow> byte"
  md_hmac_digest :: "backend_cipher \<Rightarrow> bytes \<Rightarrow> bytes \<Rightarrow> nat \<Rightarrow> byte"
  cipher_ecb :: "backend_cipher \<Rightarrow> bytes \<Rightarrow> bytes \<Rightarrow> nat \<Rightarrow> byte"
  cipher_get_algo_blklen :: "backend_cipher \<Rightarrow> nat"

record world =
  LP64 :: bool
  lib :: backend
  calloc_null :: "bool list"
  gather_random :: "nat \<Rightarrow> nat \<Rightarrow> int \<times> bytes list"
  entropy_requests :: "nat list"
  fips_mode :: bool

text \<open>
  \<open>md_digest l a m i\<close> is byte \<open>i\<close> of the memory \<^verbatim>\<open>_gcry_md_read\<close> returns for the
  digest of message \<open>m\<close> (the DRBG copies its block length from there);
  \<open>md_hmac_digest l a k m i\<close> the same for the keyed digest; \<open>cipher_ecb l a k x i\<close> is
  byte \<open>i\<close> of the ECB encryption of \<open>x\<close> under key \<open>k\<close>. \<open>gather_random w n len\<close> is
  what the gatherer does on its \<open>n\<close>-th request (counting from 0) for \<open>len\<close> bytes:
  its return code and the chunks it hands to the callback.
\<close>

definition next_rc :: "gpg_err_code_t list \<Rightarrow> gpg_err_code_t \<times> gpg_err_code_t list" where
  "next_rc rcs = (case rcs of [] \<Rightarrow> (0, []) | r # rs \<Rightarrow> (r, rs))"

definition gcry_md_open :: "backend \<Rightarrow> gpg_err_code_t \<times> backend" where
  "gcry_md_open w = (let (r, rs) = next_rc (md_open_rc w) in (r, w\<lparr>md_open_rc := rs\<rparr>))"

definition gcry_md_setkey :: "backend \<Rightarrow> gpg_err_code_t \<times> backend" where
  "gcry_md_setkey w = (let (r, rs) = next_rc (md_setkey_rc w) in (r, w\<lparr>md_setkey_rc := rs\<rparr>))"

definition gcry_cipher_open :: "backend \<Rightarrow> gpg_err_code_t \<times> backend" where
  "gcry_cipher_open w = (let (r, rs) = next_rc (cipher_open_rc w) in (r, w\<lparr>cipher_open_rc := rs\<rparr>))"

definition gcry_cipher_setkey :: "backend \<Rightarrow> gpg_err_code_t \<times> backend" where
  "gcry_cipher_setkey w =
     (let (r, rs) = next_rc (cipher_setkey_rc w) in (r, w\<lparr>cipher_setkey_rc := rs\<rparr>))"

text \<open>\<^verbatim>\<open>xcalloc_secure\<close>: True when the allocation succeeds.\<close>

definition xcalloc_secure :: "world \<Rightarrow> bool \<times> world" where
  "xcalloc_secure w =
     (case calloc_null w of [] \<Rightarrow> (True, w) | f # fs \<Rightarrow> (\<not> f, w\<lparr>calloc_null := fs\<rparr>))"

section \<open>Generic helper functions (drbg.c 239--337)\<close>

definition gcry_drbg_statelen :: "gcry_drbg_state \<Rightarrow> nat" where
  "gcry_drbg_statelen drbg = core_statelen (core drbg)"

definition gcry_drbg_blocklen :: "gcry_drbg_state \<Rightarrow> nat" where
  "gcry_drbg_blocklen drbg = core_blocklen_bytes (core drbg)"

definition gcry_drbg_keylen :: "gcry_drbg_state \<Rightarrow> nat" where
  "gcry_drbg_keylen drbg = core_statelen (core drbg) - core_blocklen_bytes (core drbg)"

definition gcry_drbg_max_request_bytes :: nat where
  "gcry_drbg_max_request_bytes = 2 ^ 16"

text \<open>\<^verbatim>\<open>SIZE_MAX\<close> of the build: 64-bit \<^verbatim>\<open>size_t\<close> with \<^verbatim>\<open>__LP64__\<close>, 32-bit without.\<close>

definition SIZE_MAX :: "world \<Rightarrow> nat" where
  "SIZE_MAX w = (if LP64 w then 2 ^ 64 - 1 else 2 ^ 32 - 1)"

definition gcry_drbg_max_addtl :: "world \<Rightarrow> nat" where
  "gcry_drbg_max_addtl w = (if LP64 w then 2 ^ 35 else SIZE_MAX w - 1)"

definition gcry_drbg_max_requests :: "world \<Rightarrow> nat" where
  "gcry_drbg_max_requests w = (if LP64 w then 2 ^ 48 else SIZE_MAX w)"

definition gcry_drbg_sec_strength :: "u32 \<Rightarrow> nat" where
  "gcry_drbg_sec_strength flags =
     (if flags AND GCRY_DRBG_HASHSHA1 \<noteq> 0 \<or> flags AND GCRY_DRBG_SYM128 \<noteq> 0 then 16
      else if flags AND GCRY_DRBG_SYM192 \<noteq> 0 then 24
      else if flags AND GCRY_DRBG_SYM256 \<noteq> 0 \<or> flags AND GCRY_DRBG_HASHSHA256 \<noteq> 0
              \<or> flags AND GCRY_DRBG_HASHSHA384 \<noteq> 0 \<or> flags AND GCRY_DRBG_HASHSHA512 \<noteq> 0 then 32
      else 32)"

text \<open>The four bytes gcry_drbg_cpu_to_be32 stores: the value as a \<^verbatim>\<open>u32\<close>, big-endian.\<close>

definition gcry_drbg_cpu_to_be32 :: "nat \<Rightarrow> bytes" where
  "gcry_drbg_cpu_to_be32 val =
     [of_nat (val div 2 ^ 24 mod 256), of_nat (val div 2 ^ 16 mod 256),
      of_nat (val div 2 ^ 8 mod 256), of_nat (val mod 256)]"

text \<open>The eight bytes of \<^verbatim>\<open>be_bswap64 (x)\<close> in memory: the value as a \<^verbatim>\<open>u64\<close>, big-endian.\<close>

definition be_bswap64 :: "nat \<Rightarrow> bytes" where
  "be_bswap64 val = gcry_drbg_cpu_to_be32 (val div 2 ^ 32) @ gcry_drbg_cpu_to_be32 val"

text \<open>
  Writing into a byte array at an offset: \<open>buf_write buf off bs\<close> is the array after
  \<^verbatim>\<open>memcpy (buf + off, bs, length bs)\<close>, and \<open>buf_read buf off n\<close> the \<open>n\<close> bytes at
  \<^verbatim>\<open>buf + off\<close>. The C code only writes inside the arrays it allocated.
\<close>

definition buf_write :: "bytes \<Rightarrow> nat \<Rightarrow> bytes \<Rightarrow> bytes" where
  "buf_write buf off bs = take off buf @ bs @ drop (off + length bs) buf"

definition buf_read :: "bytes \<Rightarrow> nat \<Rightarrow> nat \<Rightarrow> bytes" where
  "buf_read buf off n = take n (drop off buf)"

definition memset :: "bytes \<Rightarrow> nat \<Rightarrow> byte \<Rightarrow> nat \<Rightarrow> bytes" where
  "memset buf off c n = buf_write buf off (replicate n c)"

text \<open>
  What a call leaves at its output pointer: the callee either wrote \<open>d\<close> there or
  wrote nothing.
\<close>

definition put :: "bytes \<Rightarrow> nat \<Rightarrow> bytes option \<Rightarrow> bytes" where
  "put buf off out = (case out of None \<Rightarrow> buf | Some d \<Rightarrow> buf_write buf off d)"

section \<open>Cipher invocations requested by DRBG (drbg.c 2283--2340)\<close>

text \<open>
  Both adapters return their code, what they wrote at \<^verbatim>\<open>outval\<close> (None: nothing was
  written) and the world. \<open>key\<close> is the memory at the key pointer (None for NULL).
\<close>

definition gcry_drbg_hmac ::
  "backend \<Rightarrow> gcry_drbg_state \<Rightarrow> bytes option \<Rightarrow> gcry_drbg_string option
   \<Rightarrow> gpg_err_code_t \<times> bytes option \<times> backend" where
  "gcry_drbg_hmac w drbg key buf =
     (case key of
        Some k \<Rightarrow>
          (let (err, w) = gcry_md_open w in
           if err \<noteq> 0 then (err, None, w)
           else
             let (err, w) = gcry_md_setkey w in
             if err \<noteq> 0 then (err, None, w)
             else
               (0, Some (map (md_hmac_digest w (core_backend_cipher (core drbg))
                                (take (gcry_drbg_statelen drbg) k) (chain_bytes buf))
                           [0..<gcry_drbg_blocklen drbg]), w))
      | None \<Rightarrow>
          (let (err, w) = gcry_md_open w in
           if err \<noteq> 0 then (err, None, w)
           else
             (0, Some (map (md_digest w (core_backend_cipher (core drbg)) (chain_bytes buf))
                         [0..<gcry_drbg_blocklen drbg]), w)))"

text \<open>
  The block encryption reads \<^verbatim>\<open>buf->len\<close> bytes at \<^verbatim>\<open>buf->buf\<close> (the head node only)
  and, ECB keeping the length, writes as many at \<^verbatim>\<open>outval\<close>.
\<close>

definition gcry_drbg_sym ::
  "backend \<Rightarrow> gcry_drbg_state \<Rightarrow> bytes \<Rightarrow> gcry_drbg_string
   \<Rightarrow> gpg_err_code_t \<times> bytes option \<times> backend" where
  "gcry_drbg_sym w drbg key buf =
     (let (err, w) = gcry_cipher_open w in
      if err \<noteq> 0 then (err, None, w)
      else if gcry_drbg_blocklen drbg \<noteq> cipher_get_algo_blklen w (core_backend_cipher (core drbg))
      then (- GPG_ERR_NO_ERROR, None, w)
      else if gcry_drbg_blocklen drbg < str_len buf
      then (- GPG_ERR_NO_ERROR, None, w)
      else
        let (err, w) = gcry_cipher_setkey w in
        if err \<noteq> 0 then (err, None, w)
        else
          (0, Some (map (cipher_ecb w (core_backend_cipher (core drbg))
                           (take (gcry_drbg_keylen drbg) key)
                           (case str_buf buf of None \<Rightarrow> [] | Some x \<Rightarrow> take (str_len buf) x))
                      [0..<str_len buf]), w))"

section \<open>Entropy (drbg.c 370--427)\<close>

text \<open>
  The callback copies a chunk into the static buffer until the buffer is full; the
  three statics are the triple (buffer, size, used length).
\<close>

fun gcry_drbg_read_cb :: "bytes \<Rightarrow> bytes \<times> nat \<times> nat \<Rightarrow> bytes \<times> nat \<times> nat" where
  "gcry_drbg_read_cb [] st = st"
| "gcry_drbg_read_cb (p # ps) (read_cb_buffer, read_cb_size, read_cb_len) =
     (if read_cb_len < read_cb_size
      then gcry_drbg_read_cb ps (read_cb_buffer[read_cb_len := p], read_cb_size, Suc read_cb_len)
      else (read_cb_buffer, read_cb_size, read_cb_len))"

text \<open>
  The build with the Linux gatherer. Returns the code, the buffer as the callback
  left it, and the world with the request recorded.
\<close>

definition gcry_drbg_get_entropy ::
  "world \<Rightarrow> gcry_drbg_state \<Rightarrow> bytes \<Rightarrow> nat \<Rightarrow> int \<times> bytes \<times> world" where
  "gcry_drbg_get_entropy w drbg buffer len =
     (if (case test_data drbg of None \<Rightarrow> False | Some t \<Rightarrow> fail_seed_source t)
      then (- 1, buffer, w)
      else
        let (rc, chunks) = gather_random w (length (entropy_requests w)) len;
            (buffer, read_cb_size, read_cb_len) =
               fold gcry_drbg_read_cb chunks (buffer, len, 0)
        in (rc, buffer, w\<lparr>entropy_requests := entropy_requests w @ [len]\<rparr>))"

section \<open>CTR DRBG callback functions (drbg.c 429--792)\<close>

subsection \<open>BCC\<close>

text \<open>
  The walk over the input chain keeps three things: \<open>pos\<close>, the bytes from the read
  pointer on; \<open>inpos\<close>, the bytes left in the current node; and \<open>curr_next\<close>, the
  \<^verbatim>\<open>next\<close> pointer of the current node. \<open>gcry_drbg_ctr_bcc_block k cnt\<close> is the inner
  \<^verbatim>\<open>for\<close> loop with \<open>k\<close> iterations left, standing at index \<open>cnt\<close>. Every node after
  the first has a positive length at every call site; a read from an exhausted
  buffer (which C does not define) reads 0 here.
\<close>

fun gcry_drbg_ctr_bcc_block ::
  "nat \<Rightarrow> nat \<Rightarrow> bytes \<Rightarrow> bytes \<Rightarrow> nat \<Rightarrow> gcry_drbg_string option
   \<Rightarrow> bytes \<times> bytes \<times> nat \<times> gcry_drbg_string option" where
  "gcry_drbg_ctr_bcc_block 0 cnt out pos inpos curr_next = (out, pos, inpos, curr_next)"
| "gcry_drbg_ctr_bcc_block (Suc k) cnt out pos inpos curr_next =
     (let out = out[cnt := (out ! cnt) XOR (case pos of [] \<Rightarrow> 0 | p # ps \<Rightarrow> p)];
          pos = tl pos;
          inpos = inpos - 1
      in if inpos = 0
         then (case curr_next of
                 Some nxt \<Rightarrow>
                   gcry_drbg_ctr_bcc_block k (Suc cnt) out
                     (case str_buf nxt of None \<Rightarrow> [] | Some x \<Rightarrow> x) (str_len nxt) (str_next nxt)
               | None \<Rightarrow> (out, pos, 0, None))
         else gcry_drbg_ctr_bcc_block k (Suc cnt) out pos inpos curr_next)"

fun string_size :: "gcry_drbg_string \<Rightarrow> nat" where
  "string_size (Str b l n) = Suc (l + (case n of None \<Rightarrow> 0 | Some s \<Rightarrow> string_size s))"

definition walk_size :: "nat \<Rightarrow> gcry_drbg_string option \<Rightarrow> nat" where
  "walk_size inpos curr_next = inpos + (case curr_next of None \<Rightarrow> 0 | Some s \<Rightarrow> string_size s)"

function gcry_drbg_ctr_bcc_loop ::
  "backend \<Rightarrow> gcry_drbg_state \<Rightarrow> bytes \<Rightarrow> bytes \<Rightarrow> bytes \<Rightarrow> nat \<Rightarrow> gcry_drbg_string option
   \<Rightarrow> gpg_err_code_t \<times> bytes \<times> backend" where
  "gcry_drbg_ctr_bcc_loop w drbg key out pos inpos curr_next =
     (if inpos \<noteq> 0 then
        (let blk = gcry_drbg_ctr_bcc_block (gcry_drbg_blocklen drbg) 0 out pos inpos curr_next;
             out = fst blk;
             r = gcry_drbg_sym w drbg key (gcry_drbg_string_fill (Some out) (gcry_drbg_blocklen drbg));
             out = put out 0 (fst (snd r))
         in if fst r \<noteq> 0 then (fst r, out, snd (snd r))
            else gcry_drbg_ctr_bcc_loop (snd (snd r)) drbg key out
                   (fst (snd blk)) (fst (snd (snd blk))) (snd (snd (snd blk))))
      else (0, out, w))"
  by pat_completeness auto
termination
proof (relation "measure (\<lambda>(w, drbg, key, out, pos, inpos, curr_next). walk_size inpos curr_next)")
  show "wf (measure (\<lambda>(w, drbg, key, out, pos, inpos, curr_next). walk_size inpos curr_next))"
    by simp
next
  fix w drbg key and out pos :: bytes and inpos curr_next blk outa r outb
  assume pos: "inpos \<noteq> 0"
    and blk: "blk = gcry_drbg_ctr_bcc_block (gcry_drbg_blocklen drbg) 0 out pos inpos curr_next"
  have mono: "walk_size (fst (snd (snd (gcry_drbg_ctr_bcc_block k cnt o1 p1 i1 c1))))
                        (snd (snd (snd (gcry_drbg_ctr_bcc_block k cnt o1 p1 i1 c1))))
              \<le> walk_size i1 c1" for k cnt o1 p1 i1 c1
  proof (induction k arbitrary: cnt o1 p1 i1 c1)
    case 0
    then show ?case by simp
  next
    case (Suc k)
    show ?case
    proof (cases "i1 - 1 = 0")
      case True
      show ?thesis
      proof (cases c1)
        case None
        then show ?thesis using True by (simp add: Let_def walk_size_def)
      next
        case (Some s)
        have "walk_size (str_len s) (str_next s) \<le> walk_size i1 c1"
          by (cases s) (simp add: Some walk_size_def)
        then show ?thesis
          using True Some Suc.IH [of "Suc cnt" _ _ "str_len s" "str_next s"]
          by (simp add: Let_def) (meson le_trans)
      qed
    next
      case False
      have "walk_size (i1 - 1) c1 \<le> walk_size i1 c1" by (simp add: walk_size_def)
      then show ?thesis
        using False Suc.IH [of "Suc cnt" _ _ "i1 - 1" c1]
        by (simp add: Let_def) (meson le_trans)
    qed
  qed
  obtain b where b: "gcry_drbg_blocklen drbg = Suc b"
    by (cases "core drbg") (simp_all add: gcry_drbg_blocklen_def numeral_eq_Suc)
  have "walk_size (fst (snd (snd blk))) (snd (snd (snd blk))) < walk_size inpos curr_next"
  proof (cases "inpos - 1 = 0")
    case True
    show ?thesis
    proof (cases curr_next)
      case None
      then show ?thesis using True pos by (simp add: blk b Let_def walk_size_def)
    next
      case (Some s)
      have "walk_size (str_len s) (str_next s) < walk_size inpos curr_next"
        by (cases s) (simp add: Some walk_size_def)
      then show ?thesis
        using True Some mono [of b "Suc 0" _ _ "str_len s" "str_next s"]
        by (simp add: blk b Let_def) (meson le_less_trans)
    qed
  next
    case False
    have "walk_size (inpos - 1) curr_next < walk_size inpos curr_next"
      using pos by (simp add: walk_size_def)
    then show ?thesis
      using False mono [of b "Suc 0" _ _ "inpos - 1" curr_next]
      by (simp add: blk b Let_def) (meson le_less_trans)
  qed
  then show "((snd (snd r), drbg, key, outb, fst (snd blk), fst (snd (snd blk)), snd (snd (snd blk))),
              (w, drbg, key, out, pos, inpos, curr_next))
             \<in> measure (\<lambda>(w, drbg, key, out, pos, inpos, curr_next). walk_size inpos curr_next)"
    by (simp add: case_prod_beta)
qed

definition gcry_drbg_ctr_bcc ::
  "backend \<Rightarrow> gcry_drbg_state \<Rightarrow> bytes \<Rightarrow> gcry_drbg_string \<Rightarrow> gpg_err_code_t \<times> bytes \<times> backend" where
  "gcry_drbg_ctr_bcc w drbg key inp =
     gcry_drbg_ctr_bcc_loop w drbg key (replicate (gcry_drbg_blocklen drbg) 0)
       (case str_buf inp of None \<Rightarrow> [] | Some x \<Rightarrow> x) (str_len inp) (str_next inp)"

subsection \<open>Derivation function\<close>

text \<open>
  The derivation function works in the scratchpad behind \<^verbatim>\<open>df_data\<close>, which is the
  scratchpad at offset \<open>df_off\<close>: \<^verbatim>\<open>pad\<close>, \<^verbatim>\<open>iv\<close> and \<^verbatim>\<open>temp\<close> follow it. The chain
  it hashes is S1 (the iv), S2 (the two lengths), the caller's chain, and S4 (the
  padding), which it links behind the caller's last node. S1 and S4 point into the
  scratchpad, so their bytes are read from it when the chain is walked; the padding
  is not written again after S4 is filled.
\<close>

definition ctr_df_K :: bytes where
  "ctr_df_K = map of_nat [0..<32]"

function gcry_drbg_ctr_df_step9 ::
  "backend \<Rightarrow> gcry_drbg_state \<Rightarrow> bytes \<Rightarrow> nat \<Rightarrow> nat \<Rightarrow> gcry_drbg_string \<Rightarrow> nat \<Rightarrow> nat
   \<Rightarrow> gpg_err_code_t \<times> bytes \<times> backend" where
  "gcry_drbg_ctr_df_step9 w drbg sp iv_off temp_off S2 i templen =
     (if templen < gcry_drbg_keylen drbg + gcry_drbg_blocklen drbg then
        (let sp = buf_write sp iv_off (gcry_drbg_cpu_to_be32 i);
             S1 = Str (Some (buf_read sp iv_off (gcry_drbg_blocklen drbg)))
                    (gcry_drbg_blocklen drbg) (Some S2);
             (ret, out, w) = gcry_drbg_ctr_bcc w drbg ctr_df_K S1;
             sp = buf_write sp (temp_off + templen) out
         in if ret \<noteq> 0 then (ret, sp, w)
            else gcry_drbg_ctr_df_step9 w drbg sp iv_off temp_off S2 (i + 1)
                   (templen + gcry_drbg_blocklen drbg))
      else (0, sp, w))"
  by pat_completeness auto
termination
  apply (relation "measure (\<lambda>(w, drbg, sp, iv_off, temp_off, S2, i, templen).
                     gcry_drbg_keylen drbg + gcry_drbg_blocklen drbg - templen)")
   apply simp
  subgoal for w drbg
    by (cases "core drbg") (auto simp: gcry_drbg_blocklen_def)
  done

function gcry_drbg_ctr_df_step13 ::
  "backend \<Rightarrow> gcry_drbg_state \<Rightarrow> bytes \<Rightarrow> nat \<Rightarrow> nat \<Rightarrow> nat \<Rightarrow> nat
   \<Rightarrow> gpg_err_code_t \<times> bytes \<times> backend" where
  "gcry_drbg_ctr_df_step13 w drbg sp df_off temp_off bytes_to_return generated_len =
     (if generated_len < bytes_to_return then
        (let X_off = temp_off + gcry_drbg_keylen drbg;
             cipherin = gcry_drbg_string_fill (Some (buf_read sp X_off (gcry_drbg_blocklen drbg)))
                          (gcry_drbg_blocklen drbg);
             (ret, enc, w) = gcry_drbg_sym w drbg (drop temp_off sp) cipherin;
             sp = put sp X_off enc
         in if ret \<noteq> 0 then (ret, sp, w)
            else
              let blocklen = (if gcry_drbg_blocklen drbg < bytes_to_return - generated_len
                              then gcry_drbg_blocklen drbg else bytes_to_return - generated_len);
                  sp = buf_write sp (df_off + generated_len) (buf_read sp X_off blocklen)
              in gcry_drbg_ctr_df_step13 w drbg sp df_off temp_off bytes_to_return
                   (generated_len + blocklen))
      else (0, sp, w))"
  by pat_completeness auto
termination
  apply (relation "measure (\<lambda>(w, drbg, sp, df_off, temp_off, bytes_to_return, generated_len).
                     bytes_to_return - generated_len)")
   apply simp
  subgoal for w drbg
    by (cases "core drbg") (auto simp: gcry_drbg_blocklen_def)
  done

text \<open>The code at the label \<^verbatim>\<open>out\<close> of gcry_drbg_ctr_df.\<close>

definition gcry_drbg_ctr_df_out :: "gcry_drbg_state \<Rightarrow> bytes \<Rightarrow> nat \<Rightarrow> nat \<Rightarrow> nat \<Rightarrow> bytes" where
  "gcry_drbg_ctr_df_out drbg sp pad_off iv_off temp_off =
     (let sp = memset sp iv_off 0 (gcry_drbg_blocklen drbg);
          sp = memset sp temp_off 0 (gcry_drbg_statelen drbg);
          sp = memset sp pad_off 0 (gcry_drbg_blocklen drbg)
      in sp)"

text \<open>
  Returns the code, the DRBG with the scratchpad as it is left, the caller's chain
  as it is left, and the world. The chain is never NULL here (the only caller
  tests it).
\<close>

definition gcry_drbg_ctr_df ::
  "backend \<Rightarrow> gcry_drbg_state \<Rightarrow> nat \<Rightarrow> nat \<Rightarrow> gcry_drbg_string
   \<Rightarrow> gpg_err_code_t \<times> gcry_drbg_state \<times> gcry_drbg_string \<times> backend" where
  "gcry_drbg_ctr_df w drbg df_off bytes_to_return addtl =
     (let pad_off = df_off + gcry_drbg_statelen drbg;
          iv_off = pad_off + gcry_drbg_blocklen drbg;
          temp_off = iv_off + gcry_drbg_blocklen drbg;
          sp = memset (scratchpad drbg) pad_off 0 (gcry_drbg_blocklen drbg);
          sp = memset sp iv_off 0 (gcry_drbg_blocklen drbg);
          sp = memset sp temp_off 0 (gcry_drbg_statelen drbg)
      in if 512 div 8 < bytes_to_return
         then (GPG_ERR_INV_ARG, drbg\<lparr>scratchpad := sp\<rparr>, addtl, w)
         else
           let inputlen = string_total_len addtl;
               L_N = gcry_drbg_cpu_to_be32 inputlen @ gcry_drbg_cpu_to_be32 bytes_to_return;
               padlen = (inputlen + 8 + 1) mod gcry_drbg_blocklen drbg;
               padlen = (if padlen \<noteq> 0 then gcry_drbg_blocklen drbg - padlen else padlen);
               padlen = padlen + 1;
               sp = buf_write sp pad_off [0x80];
               S4 = gcry_drbg_string_fill (Some (buf_read sp pad_off (gcry_drbg_blocklen drbg))) padlen;
               addtl = string_splice addtl S4;
               S2 = Str (Some L_N) 8 (Some addtl);
               (ret, sp, w) = gcry_drbg_ctr_df_step9 w drbg sp iv_off temp_off S2 0 0
           in if ret \<noteq> 0
              then (ret, drbg\<lparr>scratchpad := gcry_drbg_ctr_df_out drbg sp pad_off iv_off temp_off\<rparr>,
                    addtl, w)
              else
                let (ret, sp, w) =
                      gcry_drbg_ctr_df_step13 w drbg sp df_off temp_off bytes_to_return 0
                in (ret, drbg\<lparr>scratchpad := gcry_drbg_ctr_df_out drbg sp pad_off iv_off temp_off\<rparr>,
                    addtl, w))"

subsection \<open>Update\<close>

function gcry_drbg_ctr_update_loop ::
  "backend \<Rightarrow> gcry_drbg_state \<Rightarrow> nat \<Rightarrow> gpg_err_code_t \<times> gcry_drbg_state \<times> backend" where
  "gcry_drbg_ctr_update_loop w drbg len =
     (if len < gcry_drbg_statelen drbg then
        (let drbg = drbg\<lparr>V := gcry_drbg_add_buf (V drbg) (gcry_drbg_blocklen drbg) [1] 1\<rparr>;
             cipherin = gcry_drbg_string_fill (Some (V drbg)) (gcry_drbg_blocklen drbg);
             (ret, enc, w) = gcry_drbg_sym w drbg (C drbg) cipherin;
             drbg = drbg\<lparr>scratchpad := put (scratchpad drbg) len enc\<rparr>
         in if ret \<noteq> 0 then (ret, drbg, w)
            else gcry_drbg_ctr_update_loop w drbg (len + gcry_drbg_blocklen drbg))
      else (0, drbg, w))"
  by pat_completeness auto
termination
  apply (relation "measure (\<lambda>(w, drbg, len). gcry_drbg_statelen drbg - len)")
   apply simp
  subgoal for w drbg
    by (cases "core drbg") (auto simp: gcry_drbg_blocklen_def gcry_drbg_statelen_def)
  done

text \<open>The code at the label \<^verbatim>\<open>out\<close> of gcry_drbg_ctr_update.\<close>

definition gcry_drbg_ctr_update_out :: "gcry_drbg_state \<Rightarrow> int \<Rightarrow> gcry_drbg_state" where
  "gcry_drbg_ctr_update_out drbg reseed =
     (let df_off = gcry_drbg_statelen drbg + gcry_drbg_blocklen drbg;
          sp = memset (scratchpad drbg) 0 0 (gcry_drbg_statelen drbg + gcry_drbg_blocklen drbg);
          sp = (if 2 \<noteq> reseed then memset sp df_off 0 (gcry_drbg_statelen drbg) else sp)
      in drbg\<lparr>scratchpad := sp\<rparr>)"

definition gcry_drbg_ctr_update ::
  "backend \<Rightarrow> gcry_drbg_state \<Rightarrow> gcry_drbg_string option \<Rightarrow> int
   \<Rightarrow> gpg_err_code_t \<times> gcry_drbg_state \<times> gcry_drbg_string option \<times> backend" where
  "gcry_drbg_ctr_update w drbg addtl reseed =
     (let df_off = gcry_drbg_statelen drbg + gcry_drbg_blocklen drbg;
          sp = memset (scratchpad drbg) 0 0 (gcry_drbg_statelen drbg + gcry_drbg_blocklen drbg);
          sp = (if 3 > reseed then memset sp df_off 0 (gcry_drbg_statelen drbg) else sp);
          drbg = drbg\<lparr>scratchpad := sp\<rparr>;
          (ret, drbg, addtl, w) =
             (case addtl of
                Some a \<Rightarrow>
                  if 0 < str_len a
                  then (let (ret, drbg, a, w) = gcry_drbg_ctr_df w drbg df_off (gcry_drbg_statelen drbg) a
                        in (ret, drbg, Some a, w))
                  else (0, drbg, addtl, w)
              | None \<Rightarrow> (0, drbg, addtl, w))
      in if ret \<noteq> 0 then (ret, gcry_drbg_ctr_update_out drbg reseed, addtl, w)
         else
           let (ret, drbg, w) = gcry_drbg_ctr_update_loop w drbg 0
           in if ret \<noteq> 0 then (ret, gcry_drbg_ctr_update_out drbg reseed, addtl, w)
              else
                let sp = scratchpad drbg;
                    sp = buf_write sp 0
                           (map2 (XOR) (buf_read sp 0 (gcry_drbg_statelen drbg))
                                       (buf_read sp df_off (gcry_drbg_statelen drbg)));
                    drbg = drbg\<lparr>scratchpad := sp\<rparr>;
                    drbg = drbg\<lparr>C := buf_write (C drbg) 0 (buf_read sp 0 (gcry_drbg_keylen drbg))\<rparr>;
                    drbg = drbg\<lparr>V := buf_write (V drbg) 0
                                        (buf_read sp (gcry_drbg_keylen drbg) (gcry_drbg_blocklen drbg))\<rparr>
                in (0, gcry_drbg_ctr_update_out drbg reseed, addtl, w))"

subsection \<open>Generate\<close>

function gcry_drbg_ctr_generate_loop ::
  "backend \<Rightarrow> gcry_drbg_state \<Rightarrow> bytes \<Rightarrow> nat \<Rightarrow> nat
   \<Rightarrow> gpg_err_code_t \<times> gcry_drbg_state \<times> bytes \<times> backend" where
  "gcry_drbg_ctr_generate_loop w drbg buf buflen len =
     (if len < buflen then
        (let data = gcry_drbg_string_fill (Some (V drbg)) (gcry_drbg_blocklen drbg);
             (ret, enc, w) = gcry_drbg_sym w drbg (C drbg) data;
             drbg = drbg\<lparr>scratchpad := put (scratchpad drbg) 0 enc\<rparr>
         in if ret \<noteq> 0 then (ret, drbg, buf, w)
            else
              let outlen = (if gcry_drbg_blocklen drbg < buflen - len
                            then gcry_drbg_blocklen drbg else buflen - len);
                  buf = buf_write buf len (buf_read (scratchpad drbg) 0 outlen);
                  len = len + outlen;
                  drbg = (if len < buflen
                          then drbg\<lparr>V := gcry_drbg_add_buf (V drbg) (gcry_drbg_blocklen drbg) [1] 1\<rparr>
                          else drbg)
              in gcry_drbg_ctr_generate_loop w drbg buf buflen len)
      else (0, drbg, buf, w))"
  by pat_completeness auto
termination
  apply (relation "measure (\<lambda>(w, drbg, buf, buflen, len). buflen - len)")
   apply simp
  subgoal for w drbg
    by (cases "core drbg") (auto simp: gcry_drbg_blocklen_def)
  done

text \<open>\<^verbatim>\<open>addtl->next = NULL\<close> on a pointer that may be NULL.\<close>

definition clear_next :: "gcry_drbg_string option \<Rightarrow> gcry_drbg_string option" where
  "clear_next p = (case p of None \<Rightarrow> None | Some a \<Rightarrow> Some (Str (str_buf a) (str_len a) None))"

definition addtl_present :: "gcry_drbg_string option \<Rightarrow> bool" where
  "addtl_present p = (case p of None \<Rightarrow> False | Some a \<Rightarrow> 0 < str_len a)"

definition gcry_drbg_ctr_generate ::
  "backend \<Rightarrow> gcry_drbg_state \<Rightarrow> bytes \<Rightarrow> nat \<Rightarrow> gcry_drbg_string option
   \<Rightarrow> gpg_err_code_t \<times> gcry_drbg_state \<times> bytes \<times> gcry_drbg_string option \<times> backend" where
  "gcry_drbg_ctr_generate w drbg buf buflen addtl =
     (let drbg = drbg\<lparr>scratchpad := memset (scratchpad drbg) 0 0 (gcry_drbg_blocklen drbg)\<rparr>;
          (ret, drbg, addtl, w) =
             (if addtl_present addtl
              then gcry_drbg_ctr_update w drbg (clear_next addtl) 2
              else (0, drbg, addtl, w))
      in if ret \<noteq> 0 then (ret, drbg, buf, addtl, w)
         else
           let drbg = drbg\<lparr>V := gcry_drbg_add_buf (V drbg) (gcry_drbg_blocklen drbg) [1] 1\<rparr>;
               (ret, drbg, buf, w) = gcry_drbg_ctr_generate_loop w drbg buf buflen 0
           in if ret \<noteq> 0
              then (ret, drbg\<lparr>scratchpad := memset (scratchpad drbg) 0 0 (gcry_drbg_blocklen drbg)\<rparr>,
                    buf, addtl, w)
              else
                let (ret, drbg, addtl, w) = gcry_drbg_ctr_update w drbg (clear_next addtl) 3
                in (ret, drbg\<lparr>scratchpad := memset (scratchpad drbg) 0 0 (gcry_drbg_blocklen drbg)\<rparr>,
                    buf, addtl, w))"

section \<open>HMAC DRBG callback functions (drbg.c 794--892)\<close>

text \<open>
  \<open>gcry_drbg_hmac_update_rounds w drbg seed i\<close> is the \<^verbatim>\<open>for\<close> loop of the update
  standing at counter \<open>i\<close> (it starts at 2 and counts down). The chain of the first
  digest is V, the prefix byte and the seed; the key is C, which also takes the
  result.
\<close>

fun gcry_drbg_hmac_update_rounds ::
  "backend \<Rightarrow> gcry_drbg_state \<Rightarrow> gcry_drbg_string option \<Rightarrow> nat
   \<Rightarrow> gpg_err_code_t \<times> gcry_drbg_state \<times> backend" where
  "gcry_drbg_hmac_update_rounds w drbg seed 0 = (0, drbg, w)"
| "gcry_drbg_hmac_update_rounds w drbg seed (Suc n) =
     (let prefix = (if 1 = Suc n then 0x01 else 0x00);
          seed2 = Str (Some [prefix]) 1 seed;
          seed1 = Str (Some (V drbg)) (gcry_drbg_statelen drbg) (Some seed2);
          (ret, out, w) = gcry_drbg_hmac w drbg (Some (C drbg)) (Some seed1);
          drbg = drbg\<lparr>C := put (C drbg) 0 out\<rparr>
      in if ret \<noteq> 0 then (ret, drbg, w)
         else
           let cipherin = gcry_drbg_string_fill (Some (V drbg)) (gcry_drbg_statelen drbg);
               (ret, out, w) = gcry_drbg_hmac w drbg (Some (C drbg)) (Some cipherin);
               drbg = drbg\<lparr>V := put (V drbg) 0 out\<rparr>
           in if ret \<noteq> 0 then (ret, drbg, w)
              else if \<not> addtl_present seed then (ret, drbg, w)
              else gcry_drbg_hmac_update_rounds w drbg seed n)"

definition gcry_drbg_hmac_update ::
  "backend \<Rightarrow> gcry_drbg_state \<Rightarrow> gcry_drbg_string option \<Rightarrow> int
   \<Rightarrow> gpg_err_code_t \<times> gcry_drbg_state \<times> gcry_drbg_string option \<times> backend" where
  "gcry_drbg_hmac_update w drbg seed reseed =
     (let drbg = (if reseed = 0
                  then drbg\<lparr>V := memset (V drbg) 0 1 (gcry_drbg_statelen drbg)\<rparr>
                  else drbg);
          (ret, drbg, w) = gcry_drbg_hmac_update_rounds w drbg seed 2
      in (ret, drbg, seed, w))"

function gcry_drbg_hmac_generate_loop ::
  "backend \<Rightarrow> gcry_drbg_state \<Rightarrow> bytes \<Rightarrow> nat \<Rightarrow> nat
   \<Rightarrow> gpg_err_code_t \<times> gcry_drbg_state \<times> bytes \<times> backend" where
  "gcry_drbg_hmac_generate_loop w drbg buf buflen len =
     (if len < buflen then
        (let data = gcry_drbg_string_fill (Some (V drbg)) (gcry_drbg_statelen drbg);
             (ret, out, w) = gcry_drbg_hmac w drbg (Some (C drbg)) (Some data);
             drbg = drbg\<lparr>V := put (V drbg) 0 out\<rparr>
         in if ret \<noteq> 0 then (ret, drbg, buf, w)
            else
              let outlen = (if gcry_drbg_blocklen drbg < buflen - len
                            then gcry_drbg_blocklen drbg else buflen - len);
                  buf = buf_write buf len (buf_read (V drbg) 0 outlen)
              in gcry_drbg_hmac_generate_loop w drbg buf buflen (len + outlen))
      else (0, drbg, buf, w))"
  by pat_completeness auto
termination
  apply (relation "measure (\<lambda>(w, drbg, buf, buflen, len). buflen - len)")
   apply simp
  subgoal for w drbg
    by (cases "core drbg") (auto simp: gcry_drbg_blocklen_def)
  done

definition gcry_drbg_hmac_generate ::
  "backend \<Rightarrow> gcry_drbg_state \<Rightarrow> bytes \<Rightarrow> nat \<Rightarrow> gcry_drbg_string option
   \<Rightarrow> gpg_err_code_t \<times> gcry_drbg_state \<times> bytes \<times> gcry_drbg_string option \<times> backend" where
  "gcry_drbg_hmac_generate w drbg buf buflen addtl =
     (let (ret, drbg, addtl, w) =
             (if addtl_present addtl
              then gcry_drbg_hmac_update w drbg (clear_next addtl) 1
              else (0, drbg, addtl, w))
      in if ret \<noteq> 0 then (ret, drbg, buf, addtl, w)
         else
           let (ret, drbg, buf, w) = gcry_drbg_hmac_generate_loop w drbg buf buflen 0
           in if ret \<noteq> 0 then (ret, drbg, buf, addtl, w)
              else
                let (ret, drbg, addtl, w) = gcry_drbg_hmac_update w drbg (clear_next addtl) 1
                in (ret, drbg, buf, addtl, w))"

section \<open>Hash DRBG callback functions (drbg.c 894--1144)\<close>

subsection \<open>Derivation function\<close>

text \<open>
  \<open>outval\<close> is the array the result goes to (V or C of the handle; the input chain
  never points into it), \<open>input\<close> the five prefix bytes, whose first is the counter;
  \<^verbatim>\<open>input[0]++\<close> is an addition on one byte. \<^verbatim>\<open>tmp\<close> is the scratchpad at offset
  \<open>statelen\<close>.
\<close>

function gcry_drbg_hash_df_loop ::
  "backend \<Rightarrow> gcry_drbg_state \<Rightarrow> gcry_drbg_string option \<Rightarrow> bytes \<Rightarrow> bytes \<Rightarrow> nat \<Rightarrow> nat
   \<Rightarrow> gpg_err_code_t \<times> gcry_drbg_state \<times> bytes \<times> backend" where
  "gcry_drbg_hash_df_loop w drbg entropy input outval outlen len =
     (if len < outlen then
        (let tmp_off = gcry_drbg_statelen drbg;
             data1 = Str (Some input) 5 entropy;
             (ret, out, w) = gcry_drbg_hmac w drbg None (Some data1);
             drbg = drbg\<lparr>scratchpad := put (scratchpad drbg) tmp_off out\<rparr>
         in if ret \<noteq> 0 then (ret, drbg, outval, w)
            else
              let input = input[0 := input ! 0 + 1];
                  blocklen = (if gcry_drbg_blocklen drbg < outlen - len
                              then gcry_drbg_blocklen drbg else outlen - len);
                  outval = buf_write outval len (buf_read (scratchpad drbg) tmp_off blocklen)
              in gcry_drbg_hash_df_loop w drbg entropy input outval outlen (len + blocklen))
      else (0, drbg, outval, w))"
  by pat_completeness auto
termination
  apply (relation "measure (\<lambda>(w, drbg, entropy, input, outval, outlen, len). outlen - len)")
   apply simp
  subgoal for w drbg
    by (cases "core drbg") (auto simp: gcry_drbg_blocklen_def)
  done

definition gcry_drbg_hash_df ::
  "backend \<Rightarrow> gcry_drbg_state \<Rightarrow> bytes \<Rightarrow> nat \<Rightarrow> gcry_drbg_string option
   \<Rightarrow> gpg_err_code_t \<times> gcry_drbg_state \<times> bytes \<times> backend" where
  "gcry_drbg_hash_df w drbg outval outlen entropy =
     (let tmp_off = gcry_drbg_statelen drbg;
          drbg = drbg\<lparr>scratchpad := memset (scratchpad drbg) tmp_off 0 (gcry_drbg_blocklen drbg)\<rparr>;
          input = [1] @ gcry_drbg_cpu_to_be32 (outlen * 8);
          (ret, drbg, outval, w) = gcry_drbg_hash_df_loop w drbg entropy input outval outlen 0
      in (ret, drbg\<lparr>scratchpad := memset (scratchpad drbg) tmp_off 0 (gcry_drbg_blocklen drbg)\<rparr>,
          outval, w))"

subsection \<open>Update\<close>

definition gcry_drbg_hash_update ::
  "backend \<Rightarrow> gcry_drbg_state \<Rightarrow> gcry_drbg_string option \<Rightarrow> int
   \<Rightarrow> gpg_err_code_t \<times> gcry_drbg_state \<times> gcry_drbg_string option \<times> backend" where
  "gcry_drbg_hash_update w drbg seed reseed =
     (let drbg = drbg\<lparr>scratchpad := memset (scratchpad drbg) 0 0 (gcry_drbg_statelen drbg)\<rparr>
      in case seed of
           None \<Rightarrow> (GPG_ERR_INV_ARG, drbg, seed, w)
         | Some s \<Rightarrow>
             let drbg = (if reseed \<noteq> 0
                         then drbg\<lparr>scratchpad := buf_write (scratchpad drbg) 0
                                       (buf_read (V drbg) 0 (gcry_drbg_statelen drbg))\<rparr>
                         else drbg);
                 data1 = (if reseed \<noteq> 0
                          then Str (Some [0x01]) 1
                                 (Some (Str (Some (buf_read (scratchpad drbg) 0 (gcry_drbg_statelen drbg)))
                                          (gcry_drbg_statelen drbg) seed))
                          else Str (str_buf s) (str_len s) (str_next s));
                 (ret, drbg, outval, w) =
                    gcry_drbg_hash_df w drbg (V drbg) (gcry_drbg_statelen drbg) (Some data1);
                 drbg = drbg\<lparr>V := outval\<rparr>
             in if ret \<noteq> 0
                then (ret, drbg\<lparr>scratchpad := memset (scratchpad drbg) 0 0 (gcry_drbg_statelen drbg)\<rparr>,
                      seed, w)
                else
                  let data1 = Str (Some [0x00]) 1
                                (Some (Str (Some (V drbg)) (gcry_drbg_statelen drbg) None));
                      (ret, drbg, outval, w) =
                         gcry_drbg_hash_df w drbg (C drbg) (gcry_drbg_statelen drbg) (Some data1);
                      drbg = drbg\<lparr>C := outval\<rparr>
                  in (ret, drbg\<lparr>scratchpad := memset (scratchpad drbg) 0 0 (gcry_drbg_statelen drbg)\<rparr>,
                      seed, w))"

subsection \<open>Generate\<close>

definition gcry_drbg_hash_process_addtl ::
  "backend \<Rightarrow> gcry_drbg_state \<Rightarrow> gcry_drbg_string option
   \<Rightarrow> gpg_err_code_t \<times> gcry_drbg_state \<times> gcry_drbg_string option \<times> backend" where
  "gcry_drbg_hash_process_addtl w drbg addtl =
     (let drbg = drbg\<lparr>scratchpad := memset (scratchpad drbg) 0 0 (gcry_drbg_blocklen drbg)\<rparr>
      in if \<not> addtl_present addtl then (0, drbg, addtl, w)
         else
           let addtl = clear_next addtl;
               data1 = Str (Some [0x02]) 1
                         (Some (Str (Some (V drbg)) (gcry_drbg_statelen drbg) addtl));
               (ret, out, w) = gcry_drbg_hmac w drbg None (Some data1);
               drbg = drbg\<lparr>scratchpad := put (scratchpad drbg) 0 out\<rparr>;
               drbg = (if ret \<noteq> 0 then drbg
                       else drbg\<lparr>V := gcry_drbg_add_buf (V drbg) (gcry_drbg_statelen drbg)
                                          (scratchpad drbg) (gcry_drbg_blocklen drbg)\<rparr>)
           in (ret, drbg\<lparr>scratchpad := memset (scratchpad drbg) 0 0 (gcry_drbg_blocklen drbg)\<rparr>,
               addtl, w))"

text \<open>\<^verbatim>\<open>src\<close> is the scratchpad at offset 0, \<^verbatim>\<open>dst\<close> the scratchpad at offset \<open>statelen\<close>.\<close>

function gcry_drbg_hash_hashgen_loop ::
  "backend \<Rightarrow> gcry_drbg_state \<Rightarrow> bytes \<Rightarrow> nat \<Rightarrow> nat
   \<Rightarrow> gpg_err_code_t \<times> gcry_drbg_state \<times> bytes \<times> backend" where
  "gcry_drbg_hash_hashgen_loop w drbg buf buflen len =
     (if len < buflen then
        (let dst_off = gcry_drbg_statelen drbg;
             data = gcry_drbg_string_fill (Some (buf_read (scratchpad drbg) 0 (gcry_drbg_statelen drbg)))
                      (gcry_drbg_statelen drbg);
             (ret, out, w) = gcry_drbg_hmac w drbg None (Some data);
             drbg = drbg\<lparr>scratchpad := put (scratchpad drbg) dst_off out\<rparr>
         in if ret \<noteq> 0 then (ret, drbg, buf, w)
            else
              let outlen = (if gcry_drbg_blocklen drbg < buflen - len
                            then gcry_drbg_blocklen drbg else buflen - len);
                  buf = buf_write buf len (buf_read (scratchpad drbg) dst_off outlen);
                  len = len + outlen;
                  drbg = (if len < buflen
                          then drbg\<lparr>scratchpad := gcry_drbg_add_buf (scratchpad drbg)
                                                     (gcry_drbg_statelen drbg) [1] 1\<rparr>
                          else drbg)
              in gcry_drbg_hash_hashgen_loop w drbg buf buflen len)
      else (0, drbg, buf, w))"
  by pat_completeness auto
termination
  apply (relation "measure (\<lambda>(w, drbg, buf, buflen, len). buflen - len)")
   apply simp
  subgoal for w drbg
    by (cases "core drbg") (auto simp: gcry_drbg_blocklen_def)
  done

definition gcry_drbg_hash_hashgen ::
  "backend \<Rightarrow> gcry_drbg_state \<Rightarrow> bytes \<Rightarrow> nat
   \<Rightarrow> gpg_err_code_t \<times> gcry_drbg_state \<times> bytes \<times> backend" where
  "gcry_drbg_hash_hashgen w drbg buf buflen =
     (let dst_off = gcry_drbg_statelen drbg;
          sp = memset (scratchpad drbg) 0 0 (gcry_drbg_statelen drbg);
          sp = memset sp dst_off 0 (gcry_drbg_blocklen drbg);
          sp = buf_write sp 0 (buf_read (V drbg) 0 (gcry_drbg_statelen drbg));
          (ret, drbg, buf, w) = gcry_drbg_hash_hashgen_loop w (drbg\<lparr>scratchpad := sp\<rparr>) buf buflen 0
      in (ret,
          drbg\<lparr>scratchpad := memset (scratchpad drbg) 0 0
                                (gcry_drbg_statelen drbg + gcry_drbg_blocklen drbg)\<rparr>,
          buf, w))"

definition gcry_drbg_hash_generate ::
  "backend \<Rightarrow> gcry_drbg_state \<Rightarrow> bytes \<Rightarrow> nat \<Rightarrow> gcry_drbg_string option
   \<Rightarrow> gpg_err_code_t \<times> gcry_drbg_state \<times> bytes \<times> gcry_drbg_string option \<times> backend" where
  "gcry_drbg_hash_generate w drbg buf buflen addtl =
     (let (ret, drbg, addtl, w) = gcry_drbg_hash_process_addtl w drbg addtl
      in if ret \<noteq> 0 then (ret, drbg, buf, addtl, w)
         else
           let (ret, drbg, buf, w) = gcry_drbg_hash_hashgen w drbg buf buflen
           in if ret \<noteq> 0 then (ret, drbg, buf, addtl, w)
              else
                let drbg = drbg\<lparr>scratchpad := memset (scratchpad drbg) 0 0 (gcry_drbg_blocklen drbg)\<rparr>;
                    data1 = Str (Some [0x03]) 1
                              (Some (Str (Some (V drbg)) (gcry_drbg_statelen drbg) None));
                    (ret, out, w) = gcry_drbg_hmac w drbg None (Some data1);
                    drbg = drbg\<lparr>scratchpad := put (scratchpad drbg) 0 out\<rparr>;
                    drbg =
                      (if ret \<noteq> 0 then drbg
                       else
                         let v = gcry_drbg_add_buf (V drbg) (gcry_drbg_statelen drbg)
                                   (scratchpad drbg) (gcry_drbg_blocklen drbg);
                             v = gcry_drbg_add_buf v (gcry_drbg_statelen drbg)
                                   (C drbg) (gcry_drbg_statelen drbg);
                             v = gcry_drbg_add_buf v (gcry_drbg_statelen drbg)
                                   (be_bswap64 (reseed_ctr drbg)) 8
                         in drbg\<lparr>V := v\<rparr>)
                in (ret, drbg\<lparr>scratchpad := memset (scratchpad drbg) 0 0 (gcry_drbg_blocklen drbg)\<rparr>,
                    buf, addtl, w))"

section \<open>Functions common for DRBG implementations (drbg.c 1146--1516)\<close>

text \<open>The calls through the \<^verbatim>\<open>d_ops\<close> table of the handle.\<close>

definition ops_update ::
  "backend \<Rightarrow> gcry_drbg_state \<Rightarrow> gcry_drbg_string option \<Rightarrow> int
   \<Rightarrow> gpg_err_code_t \<times> gcry_drbg_state \<times> gcry_drbg_string option \<times> backend" where
  "ops_update w drbg seed reseed =
     (case d_ops drbg of
        gcry_drbg_hmac_ops \<Rightarrow> gcry_drbg_hmac_update w drbg seed reseed
      | gcry_drbg_hash_ops \<Rightarrow> gcry_drbg_hash_update w drbg seed reseed
      | gcry_drbg_ctr_ops \<Rightarrow> gcry_drbg_ctr_update w drbg seed reseed)"

definition ops_generate ::
  "backend \<Rightarrow> gcry_drbg_state \<Rightarrow> bytes \<Rightarrow> nat \<Rightarrow> gcry_drbg_string option
   \<Rightarrow> gpg_err_code_t \<times> gcry_drbg_state \<times> bytes \<times> gcry_drbg_string option \<times> backend" where
  "ops_generate w drbg buf buflen addtl =
     (case d_ops drbg of
        gcry_drbg_hmac_ops \<Rightarrow> gcry_drbg_hmac_generate w drbg buf buflen addtl
      | gcry_drbg_hash_ops \<Rightarrow> gcry_drbg_hash_generate w drbg buf buflen addtl
      | gcry_drbg_ctr_ops \<Rightarrow> gcry_drbg_ctr_generate w drbg buf buflen addtl)"

subsection \<open>Seeding\<close>

text \<open>
  The second half of gcry_drbg_seed, from the concatenation on: \<open>data1\<close> holds the
  entropy; the caller's string is linked behind it when it is a single non-empty
  node. The functions return, besides the code and the handle, the caller's string
  as the call leaves it.
\<close>

definition gcry_drbg_seed_update ::
  "world \<Rightarrow> gcry_drbg_state \<Rightarrow> gcry_drbg_string option \<Rightarrow> int \<Rightarrow> gcry_drbg_string
   \<Rightarrow> gpg_err_code_t \<times> gcry_drbg_state \<times> gcry_drbg_string option \<times> world" where
  "gcry_drbg_seed_update w drbg pers reseed data1 =
     (let linked = (case pers of
                      None \<Rightarrow> False
                    | Some p \<Rightarrow> str_buf p \<noteq> None \<and> 0 < str_len p \<and> str_next p = None);
          data1 = (if linked then Str (str_buf data1) (str_len data1) pers else data1);
          (ret, drbg, data1, l) = ops_update (lib w) drbg (Some data1) reseed;
          w = w\<lparr>lib := l\<rparr>;
          pers = (if linked then (case data1 of None \<Rightarrow> pers | Some d \<Rightarrow> str_next d) else pers)
      in if ret \<noteq> 0 then (ret, drbg, pers, w)
         else (ret, drbg\<lparr>seeded := True, reseed_ctr := 1\<rparr>, pers, w))"

definition gcry_drbg_seed ::
  "world \<Rightarrow> gcry_drbg_state \<Rightarrow> gcry_drbg_string option \<Rightarrow> int
   \<Rightarrow> gpg_err_code_t \<times> gcry_drbg_state \<times> gcry_drbg_string option \<times> world" where
  "gcry_drbg_seed w drbg pers reseed =
     (if (case pers of None \<Rightarrow> False | Some p \<Rightarrow> str_len p > gcry_drbg_max_addtl w)
      then (GPG_ERR_INV_ARG, drbg, pers, w)
      else
        case (case test_data drbg of None \<Rightarrow> None | Some t \<Rightarrow> testentropy t) of
          Some te \<Rightarrow>
            gcry_drbg_seed_update w drbg pers reseed
              (gcry_drbg_string_fill (str_buf te) (str_len te))
        | None \<Rightarrow>
            let entropylen = gcry_drbg_sec_strength (core_flags (core drbg))
            in if entropylen = 0 then (GPG_ERR_GENERAL, drbg, pers, w)
               else
                 let entropylen = (if 0 = reseed then ((entropylen + 1) div 2) * 3 else entropylen);
                     (entropy_ok, w) = xcalloc_secure w
                 in if \<not> entropy_ok then (GPG_ERR_ENOMEM, drbg, pers, w)
                    else
                      let (ret, entropy, w) =
                            gcry_drbg_get_entropy w drbg (replicate entropylen 0) entropylen
                      in if ret \<noteq> 0 then (ret, drbg, pers, w)
                         else gcry_drbg_seed_update w drbg pers reseed
                                (gcry_drbg_string_fill (Some entropy) entropylen))"

subsection \<open>Generate\<close>

text \<open>
  Steps 8 and 10 of gcry_drbg_generate: the call of the mechanism and the increment
  of the request counter (a \<^verbatim>\<open>size_t\<close>, so it wraps at \<^verbatim>\<open>SIZE_MAX\<close>).
\<close>

definition gcry_drbg_generate_mech ::
  "world \<Rightarrow> gcry_drbg_state \<Rightarrow> bytes \<Rightarrow> nat \<Rightarrow> gcry_drbg_string option
   \<Rightarrow> gpg_err_code_t \<times> gcry_drbg_state \<times> bytes \<times> gcry_drbg_string option \<times> world" where
  "gcry_drbg_generate_mech w drbg buf buflen addtl =
     (let (ret, drbg, buf, addtl, l) = ops_generate (lib w) drbg buf buflen addtl;
          w = w\<lparr>lib := l\<rparr>;
          drbg = drbg\<lparr>reseed_ctr := (reseed_ctr drbg + 1) mod (SIZE_MAX w + 1)\<rparr>
      in (ret, drbg, buf, addtl, w))"

text \<open>
  \<open>buf\<close> is the output array (None for a NULL pointer), at least \<open>buflen\<close> bytes long.
  The last but one component of the result is the caller's additional-input string
  as the call leaves it.
\<close>

definition gcry_drbg_generate ::
  "world \<Rightarrow> gcry_drbg_state \<Rightarrow> bytes option \<Rightarrow> nat \<Rightarrow> gcry_drbg_string option
   \<Rightarrow> gpg_err_code_t \<times> gcry_drbg_state \<times> bytes option \<times> gcry_drbg_string option \<times> world" where
  "gcry_drbg_generate w drbg buf buflen addtl =
     (case buf of
        None \<Rightarrow> (GPG_ERR_INV_ARG, drbg, buf, addtl, w)
      | Some b \<Rightarrow>
          if 0 = buflen then (GPG_ERR_INV_ARG, drbg, buf, addtl, w)
          else if (case addtl of None \<Rightarrow> False | Some a \<Rightarrow> str_buf a = None \<and> 0 < str_len a)
          then (GPG_ERR_INV_ARG, drbg, buf, addtl, w)
          else if buflen > gcry_drbg_max_request_bytes
          then (GPG_ERR_INV_ARG, drbg, buf, addtl, w)
          else if (case addtl of None \<Rightarrow> False | Some a \<Rightarrow> str_len a > gcry_drbg_max_addtl w)
          then (GPG_ERR_INV_ARG, drbg, buf, addtl, w)
          else
            let drbg = (if gcry_drbg_max_requests w < reseed_ctr drbg
                        then drbg\<lparr>seeded := False\<rparr> else drbg)
            in if pr drbg \<or> \<not> seeded drbg
               then
                 let (ret, drbg, addtl, w) = gcry_drbg_seed w drbg addtl 1
                 in if ret \<noteq> 0 then (ret, drbg, buf, addtl, w)
                    else
                      let (ret, drbg, b, unused, w) = gcry_drbg_generate_mech w drbg b buflen None
                      in (ret, drbg, Some b, addtl, w)
               else
                 let (ret, drbg, b, addtl, w) = gcry_drbg_generate_mech w drbg b buflen addtl
                 in (ret, drbg, Some b, addtl, w))"

text \<open>
  The \<^verbatim>\<open>do ... while\<close> loop of gcry_drbg_generate_long, entered at its body. The
  chunk goes to \<^verbatim>\<open>buf + len\<close>.
\<close>

function gcry_drbg_generate_long_loop ::
  "world \<Rightarrow> gcry_drbg_state \<Rightarrow> bytes option \<Rightarrow> nat \<Rightarrow> gcry_drbg_string option \<Rightarrow> nat
   \<Rightarrow> gpg_err_code_t \<times> gcry_drbg_state \<times> bytes option \<times> gcry_drbg_string option \<times> world" where
  "gcry_drbg_generate_long_loop w drbg buf buflen addtl len =
     (let slice = (buflen - len) div gcry_drbg_max_request_bytes;
          chunk = (if slice \<noteq> 0 then gcry_drbg_max_request_bytes else buflen - len);
          r = gcry_drbg_generate w drbg (map_option (drop len) buf) chunk addtl;
          buf = (case fst (snd (snd r)) of
                   None \<Rightarrow> buf
                 | Some b \<Rightarrow> map_option (\<lambda>whole. take len whole @ b) buf)
      in if fst r \<noteq> 0 then (fst r, fst (snd r), buf, fst (snd (snd (snd r))), snd (snd (snd (snd r))))
         else if slice > 0 \<and> len + chunk < buflen
         then gcry_drbg_generate_long_loop (snd (snd (snd (snd r)))) (fst (snd r)) buf buflen
                (fst (snd (snd (snd r)))) (len + chunk)
         else (fst r, fst (snd r), buf, fst (snd (snd (snd r))), snd (snd (snd (snd r)))))"
  by pat_completeness auto
termination
  by (relation "measure (\<lambda>(w, drbg, buf, buflen, addtl, len). buflen - len)")
     (auto simp: gcry_drbg_max_request_bytes_def)

definition gcry_drbg_generate_long ::
  "world \<Rightarrow> gcry_drbg_state \<Rightarrow> bytes option \<Rightarrow> nat \<Rightarrow> gcry_drbg_string option
   \<Rightarrow> gpg_err_code_t \<times> gcry_drbg_state \<times> bytes option \<times> gcry_drbg_string option \<times> world" where
  "gcry_drbg_generate_long w drbg buf buflen addtl =
     gcry_drbg_generate_long_loop w drbg buf buflen addtl 0"

subsection \<open>Uninstantiate, instantiate, reseed\<close>

text \<open>The handle is never NULL at a call site, and the model has no NULL handle.\<close>

definition gcry_drbg_uninstantiate :: "gcry_drbg_state \<Rightarrow> gpg_err_code_t \<times> gcry_drbg_state" where
  "gcry_drbg_uninstantiate drbg =
     (0, drbg\<lparr>V := [], C := [], reseed_ctr := 0, scratchpad := [], seeded := False,
              pr := False, seed_init_pid := 0\<rparr>)"

text \<open>
  \<open>coreref\<close> is an index into gcry_drbg_cores, as gcry_drbg_algo_available returns
  it. The code at the label \<^verbatim>\<open>err\<close> is gcry_drbg_uninstantiate.
\<close>

definition gcry_drbg_instantiate ::
  "world \<Rightarrow> gcry_drbg_state \<Rightarrow> gcry_drbg_string option \<Rightarrow> nat \<Rightarrow> bool
   \<Rightarrow> gpg_err_code_t \<times> gcry_drbg_state \<times> gcry_drbg_string option \<times> world" where
  "gcry_drbg_instantiate w drbg pers coreref prflag =
     (let drbg = drbg\<lparr>core := gcry_drbg_cores ! coreref, pr := prflag, seeded := False\<rparr>;
          flags = core_flags (core drbg)
      in if flags AND GCRY_DRBG_HMAC = 0 \<and> flags AND GCRY_DRBG_HASH_MASK = 0
              \<and> flags AND GCRY_DRBG_CTR_MASK = 0
         then (GPG_ERR_GENERAL, drbg, pers, w)
         else
           let drbg = drbg\<lparr>d_ops :=
                        (if flags AND GCRY_DRBG_HMAC \<noteq> 0 then gcry_drbg_hmac_ops
                         else if flags AND GCRY_DRBG_HASH_MASK \<noteq> 0 then gcry_drbg_hash_ops
                         else gcry_drbg_ctr_ops)\<rparr>;
               (v_ok, w) = xcalloc_secure w;
               drbg = drbg\<lparr>V := (if v_ok then replicate (gcry_drbg_statelen drbg) 0 else [])\<rparr>
           in if \<not> v_ok then (GPG_ERR_ENOMEM, snd (gcry_drbg_uninstantiate drbg), pers, w)
              else
                let (c_ok, w) = xcalloc_secure w;
                    drbg = drbg\<lparr>C := (if c_ok then replicate (gcry_drbg_statelen drbg) 0 else [])\<rparr>
                in if \<not> c_ok then (GPG_ERR_ENOMEM, snd (gcry_drbg_uninstantiate drbg), pers, w)
                   else
                     let sb_size =
                           (if flags AND GCRY_DRBG_HMAC \<noteq> 0 then 0
                            else if flags AND GCRY_DRBG_CTR_MASK \<noteq> 0
                            then gcry_drbg_statelen drbg + gcry_drbg_blocklen drbg
                                 + gcry_drbg_statelen drbg
                                 + gcry_drbg_blocklen drbg
                                 + gcry_drbg_blocklen drbg
                                 + gcry_drbg_statelen drbg + gcry_drbg_blocklen drbg
                            else gcry_drbg_statelen drbg + gcry_drbg_blocklen drbg);
                         (s_ok, w) = (if 0 < sb_size then xcalloc_secure w else (True, w));
                         drbg = (if 0 < sb_size
                                 then drbg\<lparr>scratchpad := (if s_ok then replicate sb_size 0 else [])\<rparr>
                                 else drbg)
                     in if \<not> s_ok then (GPG_ERR_ENOMEM, snd (gcry_drbg_uninstantiate drbg), pers, w)
                        else
                          let (ret, drbg, pers, w) = gcry_drbg_seed w drbg pers 0
                          in if ret \<noteq> 0 then (ret, snd (gcry_drbg_uninstantiate drbg), pers, w)
                             else (0, drbg, pers, w))"

definition gcry_drbg_reseed ::
  "world \<Rightarrow> gcry_drbg_state \<Rightarrow> gcry_drbg_string option
   \<Rightarrow> gpg_err_code_t \<times> gcry_drbg_state \<times> gcry_drbg_string option \<times> world" where
  "gcry_drbg_reseed w drbg addtl = gcry_drbg_seed w drbg addtl 1"

section \<open>Self-test code (drbg.c 1577--1592 and 2063--2158)\<close>

text \<open>
  \<open>gcry_drbg_algo_available_from i cores flags\<close> is the search loop standing at index
  \<open>i\<close> with the entries \<open>cores\<close> still to look at; it returns the code and the index
  found.
\<close>

fun gcry_drbg_algo_available_from ::
  "nat \<Rightarrow> gcry_drbg_core list \<Rightarrow> u32 \<Rightarrow> gpg_err_code_t \<times> nat option" where
  "gcry_drbg_algo_available_from i [] flags = (GPG_ERR_GENERAL, None)"
| "gcry_drbg_algo_available_from i (c # cs) flags =
     (if core_flags c AND GCRY_DRBG_CIPHER_MASK = flags AND GCRY_DRBG_CIPHER_MASK
      then (0, Some i)
      else gcry_drbg_algo_available_from (Suc i) cs flags)"

definition gcry_drbg_algo_available :: "u32 \<Rightarrow> gpg_err_code_t \<times> nat option" where
  "gcry_drbg_algo_available flags = gcry_drbg_algo_available_from 0 gcry_drbg_cores flags"

text \<open>
  A test vector, with the fields the self-test reads (its declaration is in the
  public header).
\<close>

record gcry_drbg_test_vector =
  tv_flags :: u32
  tv_entropy :: "bytes option"
  tv_entropylen :: nat
  tv_entpra :: "bytes option"
  tv_entprb :: "bytes option"
  tv_entprlen :: nat
  tv_addtla :: "bytes option"
  tv_addtlb :: "bytes option"
  tv_addtllen :: nat
  tv_pers :: "bytes option"
  tv_perslen :: nat
  tv_expected :: bytes
  tv_expectedlen :: nat
  tv_entropyreseed :: "bytes option"
  tv_entropyreseed_len :: nat
  tv_addtl_reseed :: "bytes option"
  tv_addtl_reseed_len :: nat

text \<open>The handle as \<^verbatim>\<open>xcalloc_secure\<close> returns it: all fields zero.\<close>

definition zeroed_state :: gcry_drbg_state where
  "zeroed_state =
     \<lparr>V = [], C = [], reseed_ctr = 0, scratchpad = [], seeded = False, pr = False,
      seed_init_pid = 0, d_ops = gcry_drbg_hmac_ops, core = CORE_HASH_SHA1, test_data = None\<rparr>"

text \<open>
  \<open>drbg->test_data\<close> points at the local \<^verbatim>\<open>test_data\<close>, whose entropy string is
  refilled between the calls; the handle's field holds the value the pointer
  reaches at the time. The codes of the two gcry_drbg_generate_long calls are
  dropped, as in the C code.
\<close>

definition with_testentropy :: "gcry_drbg_state \<Rightarrow> bytes option \<Rightarrow> nat \<Rightarrow> gcry_drbg_state" where
  "with_testentropy drbg e n =
     drbg\<lparr>test_data := Some \<lparr>testentropy = Some (gcry_drbg_string_fill e n),
                              fail_seed_source = False\<rparr>\<rparr>"

definition gcry_drbg_cavs_test ::
  "world \<Rightarrow> gcry_drbg_test_vector \<Rightarrow> bytes \<Rightarrow> gpg_err_code_t \<times> bytes \<times> world" where
  "gcry_drbg_cavs_test w test buf =
     (case gcry_drbg_algo_available (tv_flags test) of
        (ret, None) \<Rightarrow> (ret, buf, w)
      | (ret, Some coreref) \<Rightarrow>
          if ret \<noteq> 0 then (ret, buf, w)
          else
            let (ok, w) = xcalloc_secure w
            in if \<not> ok then (GPG_ERR_ENOMEM, buf, w)
               else
                 let prflag = (tv_flags test AND GCRY_DRBG_PREDICTION_RESIST \<noteq> 0);
                     drbg = with_testentropy zeroed_state (tv_entropy test) (tv_entropylen test);
                     pers = gcry_drbg_string_fill (tv_pers test) (tv_perslen test);
                     (ret, drbg, pers, w) = gcry_drbg_instantiate w drbg (Some pers) coreref prflag
                 in if ret \<noteq> 0 then (ret, buf, w)
                    else
                      let (rc, drbg, w) =
                            (if tv_entropyreseed test \<noteq> None
                             then
                               let drbg = with_testentropy drbg (tv_entropyreseed test)
                                            (tv_entropyreseed_len test);
                                   addtl = gcry_drbg_string_fill (tv_addtl_reseed test)
                                             (tv_addtl_reseed_len test);
                                   (rc, drbg, addtl, w) = gcry_drbg_reseed w drbg (Some addtl)
                               in (rc, drbg, w)
                             else (0, drbg, w))
                      in if rc \<noteq> 0 then (ret, buf, w)
                         else
                           let addtl = gcry_drbg_string_fill (tv_addtla test) (tv_addtllen test);
                               drbg = (if tv_entpra test \<noteq> None
                                       then with_testentropy drbg (tv_entpra test) (tv_entprlen test)
                                       else drbg);
                               (rc, drbg, b, addtl, w) =
                                  gcry_drbg_generate_long w drbg (Some buf) (tv_expectedlen test)
                                    (Some addtl);
                               buf = (case b of None \<Rightarrow> buf | Some x \<Rightarrow> x);
                               addtl = gcry_drbg_string_fill (tv_addtlb test) (tv_addtllen test);
                               drbg = (if tv_entprb test \<noteq> None
                                       then with_testentropy drbg (tv_entprb test) (tv_entprlen test)
                                       else drbg);
                               (rc, drbg, b, addtl, w) =
                                  gcry_drbg_generate_long w drbg (Some buf) (tv_expectedlen test)
                                    (Some addtl);
                               buf = (case b of None \<Rightarrow> buf | Some x \<Rightarrow> x)
                           in (ret, buf, w))"

text \<open>
  \<^verbatim>\<open>memcmp\<close> over the first \<open>n\<close> bytes: 0 when they agree, otherwise the difference
  of the first two bytes that differ (C fixes only its sign).
\<close>

fun memcmp :: "bytes \<Rightarrow> bytes \<Rightarrow> nat \<Rightarrow> int" where
  "memcmp (a # as) (b # bs) (Suc n) =
     (if a = b then memcmp as bs n else int (unat a) - int (unat b))"
| "memcmp as bs n = 0"

definition gcry_drbg_healthcheck_one ::
  "world \<Rightarrow> gcry_drbg_test_vector \<Rightarrow> gpg_err_code_t \<times> world" where
  "gcry_drbg_healthcheck_one w test =
     (let (ok, w) = xcalloc_secure w
      in if \<not> ok then (GPG_ERR_ENOMEM, w)
         else
           let buf = replicate (tv_expectedlen test) 0;
               (ret, buf, w) = gcry_drbg_cavs_test w test buf;
               ret = memcmp (tv_expected test) buf (tv_expectedlen test)
           in (ret, w))"

text \<open>The loop equations are unfolded by hand, one iteration at a time.\<close>

declare gcry_drbg_ctr_bcc_loop.simps [simp del]
declare gcry_drbg_ctr_df_step9.simps [simp del]
declare gcry_drbg_ctr_df_step13.simps [simp del]
declare gcry_drbg_ctr_update_loop.simps [simp del]
declare gcry_drbg_ctr_generate_loop.simps [simp del]
declare gcry_drbg_hmac_generate_loop.simps [simp del]
declare gcry_drbg_hash_df_loop.simps [simp del]
declare gcry_drbg_hash_hashgen_loop.simps [simp del]
declare gcry_drbg_generate_long_loop.simps [simp del]

section \<open>Example inputs\<close>

text \<open>
  A 64-bit world in which no call fails: the digests and the cipher return zero
  bytes, the gatherer delivers the requested number of zero bytes in one chunk.
\<close>

definition example_world :: world where
  "example_world =
     \<lparr>LP64 = True,
      lib = \<lparr>md_open_rc = [], md_setkey_rc = [], cipher_open_rc = [], cipher_setkey_rc = [],
             md_digest = (\<lambda>a m i. 0), md_hmac_digest = (\<lambda>a k m i. 0),
             cipher_ecb = (\<lambda>a k x i. 0), cipher_get_algo_blklen = (\<lambda>a. 16)\<rparr>,
      calloc_null = [],
      gather_random = (\<lambda>n len. (0, [replicate len 0])),
      entropy_requests = [], fips_mode = False\<rparr>"

text \<open>The same world with a backend that reports a block length of 8 bytes.\<close>

definition misconfigured_world :: world where
  "misconfigured_world =
     example_world\<lparr>lib := (lib example_world)\<lparr>cipher_get_algo_blklen := (\<lambda>a. 8)\<rparr>\<rparr>"

text \<open>
  A seeded CTR handle on the AES-128 core and a seeded HMAC handle on the SHA-1 core,
  with buffers of the sizes gcry_drbg_instantiate allocates.
\<close>

definition example_ctr_state :: gcry_drbg_state where
  "example_ctr_state =
     \<lparr>V = replicate 32 0, C = replicate 32 0, reseed_ctr = 1, scratchpad = replicate 160 0,
      seeded = True, pr = False, seed_init_pid = 0, d_ops = gcry_drbg_ctr_ops,
      core = CORE_CTR_AES128, test_data = None\<rparr>"

definition example_hmac_state :: gcry_drbg_state where
  "example_hmac_state =
     \<lparr>V = replicate 20 1, C = replicate 20 0, reseed_ctr = 1, scratchpad = [],
      seeded = True, pr = False, seed_init_pid = 0, d_ops = gcry_drbg_hmac_ops,
      core = CORE_HMAC_SHA1, test_data = None\<rparr>"

text \<open>
  The example world with a library whose second \<^verbatim>\<open>_gcry_md_open\<close> fails for lack of
  memory.
\<close>

definition failing_world :: world where
  "failing_world =
     example_world\<lparr>lib := (lib example_world)\<lparr>md_open_rc := [0, GPG_ERR_ENOMEM]\<rparr>\<rparr>"

text \<open>A test vector that names no mechanism at all and expects four zero bytes.\<close>

definition unknown_algo_vector :: gcry_drbg_test_vector where
  "unknown_algo_vector =
     \<lparr>tv_flags = 0, tv_entropy = None, tv_entropylen = 0, tv_entpra = None, tv_entprb = None,
      tv_entprlen = 0, tv_addtla = None, tv_addtlb = None, tv_addtllen = 0, tv_pers = None,
      tv_perslen = 0, tv_expected = [0, 0, 0, 0], tv_expectedlen = 4,
      tv_entropyreseed = None, tv_entropyreseed_len = 0, tv_addtl_reseed = None,
      tv_addtl_reseed_len = 0\<rparr>"

section \<open>Nodes of a chain\<close>

text \<open>
  \<open>string_node n s\<close> is the node reached from \<open>s\<close> by following \<^verbatim>\<open>next\<close> \<open>n\<close> times
  (None when the chain ends before), \<open>string_nodes s\<close> the number of nodes of the
  chain; the last node of a chain is node number \<open>string_nodes s - 1\<close>.
\<close>

fun string_node :: "nat \<Rightarrow> gcry_drbg_string \<Rightarrow> gcry_drbg_string option" where
  "string_node 0 s = Some s"
| "string_node (Suc n) s = (case str_next s of None \<Rightarrow> None | Some t \<Rightarrow> string_node n t)"

fun string_nodes :: "gcry_drbg_string \<Rightarrow> nat" where
  "string_nodes (Str b l n) = Suc (case n of None \<Rightarrow> 0 | Some s \<Rightarrow> string_nodes s)"

section \<open>Specification functions\<close>

text \<open>The unsigned integer a byte array denotes when read big-endian.\<close>

definition be_nat :: "bytes \<Rightarrow> nat" where
  "be_nat bs = foldl (\<lambda>a b. a * 256 + unat b) 0 bs"

text \<open>
  Hash_df as the specification words it, for a hash function \<open>H\<close> with \<open>outlen\<close> bytes
  of output, an input \<open>inp\<close> and a requested length \<open>L\<close>: while fewer than \<open>L\<close> bytes are
  produced, hash the one-byte counter, the four bytes of \<open>L * 8\<close> and the input, keep
  the first \<open>min outlen (L - produced)\<close> bytes of the block, and increment the counter.
\<close>

function hash_df_spec :: "(bytes \<Rightarrow> bytes) \<Rightarrow> nat \<Rightarrow> bytes \<Rightarrow> nat \<Rightarrow> byte \<Rightarrow> nat \<Rightarrow> bytes" where
  "hash_df_spec H outlen inp L counter produced =
     (if produced < L \<and> 0 < outlen
      then take (min outlen (L - produced)) (H ([counter] @ gcry_drbg_cpu_to_be32 (L * 8) @ inp))
           @ hash_df_spec H outlen inp L (counter + 1) (produced + min outlen (L - produced))
      else [])"
  by pat_completeness auto
termination
  by (relation "measure (\<lambda>(H, outlen, inp, L, counter, produced). L - produced)") auto

declare hash_df_spec.simps [simp del]

text \<open>
  The block one digest call of the handle's core delivers: the first \<open>blocklen\<close> bytes
  at the pointer \<^verbatim>\<open>_gcry_md_read\<close> returns.
\<close>

definition core_digest :: "backend \<Rightarrow> gcry_drbg_state \<Rightarrow> bytes \<Rightarrow> bytes" where
  "core_digest w drbg m =
     map (md_digest w (core_backend_cipher (core drbg)) m) [0..<gcry_drbg_blocklen drbg]"

section \<open>Basic facts\<close>

lemma length_buf_write:
  "off + length bs \<le> length buf \<Longrightarrow> length (buf_write buf off bs) = length buf"
  by (simp add: buf_write_def)

lemma buf_read_buf_write_same:
  "off + length bs \<le> length buf \<Longrightarrow> n \<le> length bs
   \<Longrightarrow> buf_read (buf_write buf off bs) off n = take n bs"
  by (simp add: buf_write_def buf_read_def)

lemma lens_scratchpad_update [simp]:
  "gcry_drbg_blocklen (drbg\<lparr>scratchpad := x\<rparr>) = gcry_drbg_blocklen drbg"
  "gcry_drbg_statelen (drbg\<lparr>scratchpad := x\<rparr>) = gcry_drbg_statelen drbg"
  "gcry_drbg_keylen (drbg\<lparr>scratchpad := x\<rparr>) = gcry_drbg_keylen drbg"
  by (simp_all add: gcry_drbg_blocklen_def gcry_drbg_statelen_def gcry_drbg_keylen_def)

lemma lens_V_update [simp]:
  "gcry_drbg_blocklen (drbg\<lparr>V := x\<rparr>) = gcry_drbg_blocklen drbg"
  "gcry_drbg_statelen (drbg\<lparr>V := x\<rparr>) = gcry_drbg_statelen drbg"
  "gcry_drbg_keylen (drbg\<lparr>V := x\<rparr>) = gcry_drbg_keylen drbg"
  by (simp_all add: gcry_drbg_blocklen_def gcry_drbg_statelen_def gcry_drbg_keylen_def)

lemma lens_C_update [simp]:
  "gcry_drbg_blocklen (drbg\<lparr>C := x\<rparr>) = gcry_drbg_blocklen drbg"
  "gcry_drbg_statelen (drbg\<lparr>C := x\<rparr>) = gcry_drbg_statelen drbg"
  "gcry_drbg_keylen (drbg\<lparr>C := x\<rparr>) = gcry_drbg_keylen drbg"
  by (simp_all add: gcry_drbg_blocklen_def gcry_drbg_statelen_def gcry_drbg_keylen_def)

lemma SIZE_MAX_lib_update [simp]: "SIZE_MAX (w\<lparr>lib := l\<rparr>) = SIZE_MAX w"
  by (simp add: SIZE_MAX_def)

lemma backend_md_open_rc_id: "md_open_rc w = [] \<Longrightarrow> w\<lparr>md_open_rc := []\<rparr> = w"
  by (cases w) simp

lemma hmac_nokey_ok:
  "md_open_rc w = [] \<Longrightarrow>
   gcry_drbg_hmac w drbg None buf
   = (0, Some (map (md_digest w (core_backend_cipher (core drbg)) (chain_bytes buf))
                 [0..<gcry_drbg_blocklen drbg]), w)"
  by (simp add: gcry_drbg_hmac_def gcry_md_open_def next_rc_def backend_md_open_rc_id)

lemma blocklen_pos: "0 < gcry_drbg_blocklen drbg"
  by (cases "core drbg") (simp_all add: gcry_drbg_blocklen_def)

lemma length_be32: "length (gcry_drbg_cpu_to_be32 n) = 4"
  by (simp add: gcry_drbg_cpu_to_be32_def)


section \<open>What the generate functions leave alone\<close>

text \<open>
  The three mechanisms change V, C and the scratchpad of the handle, never its request
  counter, and write into the output array only below \<open>buflen\<close>.
\<close>

lemma buf_write_frame:
  assumes "off + length bs \<le> n" and "n \<le> length buf"
  shows "length (buf_write buf off bs) = length buf" and "drop n (buf_write buf off bs) = drop n buf"
  using assms by (simp_all add: buf_write_def)

lemma length_buf_read_le: "length (buf_read buf off n) \<le> n"
  by (simp add: buf_read_def)

lemma hmac_generate_loop_frame:
  "len \<le> buflen \<Longrightarrow> buflen \<le> length buf \<Longrightarrow>
   reseed_ctr (fst (snd (gcry_drbg_hmac_generate_loop w drbg buf buflen len))) = reseed_ctr drbg
   \<and> length (fst (snd (snd (gcry_drbg_hmac_generate_loop w drbg buf buflen len)))) = length buf
   \<and> drop buflen (fst (snd (snd (gcry_drbg_hmac_generate_loop w drbg buf buflen len))))
       = drop buflen buf"
proof (induction "buflen - len" arbitrary: w drbg buf len rule: less_induct)
  case less
  show ?case
  proof (cases "len < buflen")
    case False
    then show ?thesis by (subst (1 2 3) gcry_drbg_hmac_generate_loop.simps) simp
  next
    case True
    have bl: "0 < gcry_drbg_blocklen drbg" by (rule blocklen_pos)
    have wr: "length (buf_write buf len (buf_read x off k)) = length buf
              \<and> drop buflen (buf_write buf len (buf_read x off k)) = drop buflen buf"
      if "len + k \<le> buflen" for x off k
      using buf_write_frame [of len "buf_read x off k" buflen buf] length_buf_read_le [of x off k]
            that less.prems by simp
    show ?thesis
      using True bl less.prems
      apply (subst (1 2 3) gcry_drbg_hmac_generate_loop.simps)
      apply (simp add: Let_def split: prod.splits)
      apply (intro allI impI conjI)
      apply (simp_all add: less.hyps wr)
      done
  qed
qed

lemma hmac_update_rounds_ctr:
  "reseed_ctr (fst (snd (gcry_drbg_hmac_update_rounds w drbg seed n))) = reseed_ctr drbg"
proof (induction n arbitrary: w drbg)
  case 0
  then show ?case by simp
next
  case (Suc n)
  show ?case by (simp add: Let_def split_def Suc.IH)
qed

lemma hmac_update_ctr:
  "reseed_ctr (fst (snd (gcry_drbg_hmac_update w drbg seed reseed))) = reseed_ctr drbg"
  by (simp add: gcry_drbg_hmac_update_def Let_def split_def hmac_update_rounds_ctr)

lemma hmac_generate_frame:
  assumes "buflen \<le> length buf"
  shows "reseed_ctr (fst (snd (gcry_drbg_hmac_generate w drbg buf buflen addtl))) = reseed_ctr drbg
   \<and> length (fst (snd (snd (gcry_drbg_hmac_generate w drbg buf buflen addtl)))) = length buf
   \<and> drop buflen (fst (snd (snd (gcry_drbg_hmac_generate w drbg buf buflen addtl))))
       = drop buflen buf"
  using assms
  by (simp add: gcry_drbg_hmac_generate_def Let_def split_def hmac_update_ctr
        hmac_generate_loop_frame)

lemma hash_hashgen_loop_frame:
  "len \<le> buflen \<Longrightarrow> buflen \<le> length buf \<Longrightarrow>
   reseed_ctr (fst (snd (gcry_drbg_hash_hashgen_loop w drbg buf buflen len))) = reseed_ctr drbg
   \<and> length (fst (snd (snd (gcry_drbg_hash_hashgen_loop w drbg buf buflen len)))) = length buf
   \<and> drop buflen (fst (snd (snd (gcry_drbg_hash_hashgen_loop w drbg buf buflen len))))
       = drop buflen buf"
proof (induction "buflen - len" arbitrary: w drbg buf len rule: less_induct)
  case less
  show ?case
  proof (cases "len < buflen")
    case False
    then show ?thesis by (subst (1 2 3) gcry_drbg_hash_hashgen_loop.simps) simp
  next
    case True
    have bl: "0 < gcry_drbg_blocklen drbg" by (rule blocklen_pos)
    have wr: "length (buf_write buf len (buf_read x off k)) = length buf
              \<and> drop buflen (buf_write buf len (buf_read x off k)) = drop buflen buf"
      if "len + k \<le> buflen" for x off k
      using buf_write_frame [of len "buf_read x off k" buflen buf] length_buf_read_le [of x off k]
            that less.prems by simp
    show ?thesis
      using True bl less.prems
      apply (subst (1 2 3) gcry_drbg_hash_hashgen_loop.simps)
      apply (simp add: Let_def split: prod.splits)
      apply (intro allI impI conjI)
      apply (simp_all add: less.hyps wr)
      done
  qed
qed

lemma hash_process_addtl_ctr:
  "reseed_ctr (fst (snd (gcry_drbg_hash_process_addtl w drbg addtl))) = reseed_ctr drbg"
  by (simp add: gcry_drbg_hash_process_addtl_def Let_def split_def)

lemma hash_hashgen_frame:
  assumes "buflen \<le> length buf"
  shows "reseed_ctr (fst (snd (gcry_drbg_hash_hashgen w drbg buf buflen))) = reseed_ctr drbg
   \<and> length (fst (snd (snd (gcry_drbg_hash_hashgen w drbg buf buflen)))) = length buf
   \<and> drop buflen (fst (snd (snd (gcry_drbg_hash_hashgen w drbg buf buflen)))) = drop buflen buf"
  using assms
  by (simp add: gcry_drbg_hash_hashgen_def Let_def split_def hash_hashgen_loop_frame)

lemma hash_generate_frame:
  assumes "buflen \<le> length buf"
  shows "reseed_ctr (fst (snd (gcry_drbg_hash_generate w drbg buf buflen addtl))) = reseed_ctr drbg
   \<and> length (fst (snd (snd (gcry_drbg_hash_generate w drbg buf buflen addtl)))) = length buf
   \<and> drop buflen (fst (snd (snd (gcry_drbg_hash_generate w drbg buf buflen addtl))))
       = drop buflen buf"
  using assms
  by (simp add: gcry_drbg_hash_generate_def Let_def split_def hash_process_addtl_ctr
        hash_hashgen_frame)

lemma ctr_generate_loop_frame:
  "len \<le> buflen \<Longrightarrow> buflen \<le> length buf \<Longrightarrow>
   reseed_ctr (fst (snd (gcry_drbg_ctr_generate_loop w drbg buf buflen len))) = reseed_ctr drbg
   \<and> length (fst (snd (snd (gcry_drbg_ctr_generate_loop w drbg buf buflen len)))) = length buf
   \<and> drop buflen (fst (snd (snd (gcry_drbg_ctr_generate_loop w drbg buf buflen len))))
       = drop buflen buf"
proof (induction "buflen - len" arbitrary: w drbg buf len rule: less_induct)
  case less
  show ?case
  proof (cases "len < buflen")
    case False
    then show ?thesis by (subst (1 2 3) gcry_drbg_ctr_generate_loop.simps) simp
  next
    case True
    have bl: "0 < gcry_drbg_blocklen drbg" by (rule blocklen_pos)
    have wr: "length (buf_write buf len (buf_read x off k)) = length buf
              \<and> drop buflen (buf_write buf len (buf_read x off k)) = drop buflen buf"
      if "len + k \<le> buflen" for x off k
      using buf_write_frame [of len "buf_read x off k" buflen buf] length_buf_read_le [of x off k]
            that less.prems by simp
    show ?thesis
      using True bl less.prems
      apply (subst (1 2 3) gcry_drbg_ctr_generate_loop.simps)
      apply (simp add: Let_def split: prod.splits)
      apply (intro allI impI conjI)
      apply (simp_all add: less.hyps wr)
      done
  qed
qed

lemma ctr_df_ctr:
  "reseed_ctr (fst (snd (gcry_drbg_ctr_df w drbg df_off n addtl))) = reseed_ctr drbg"
  by (simp add: gcry_drbg_ctr_df_def Let_def split_def)

lemma ctr_update_loop_ctr:
  "reseed_ctr (fst (snd (gcry_drbg_ctr_update_loop w drbg len))) = reseed_ctr drbg"
proof (induction "gcry_drbg_statelen drbg - len" arbitrary: w drbg len rule: less_induct)
  case less
  show ?case
  proof (cases "len < gcry_drbg_statelen drbg")
    case False
    then show ?thesis by (subst gcry_drbg_ctr_update_loop.simps) simp
  next
    case True
    have bl: "0 < gcry_drbg_blocklen drbg" by (rule blocklen_pos)
    show ?thesis
      using True bl
      apply (subst gcry_drbg_ctr_update_loop.simps)
      apply (simp add: Let_def split: prod.splits)
      apply (intro allI impI conjI)
      apply (simp_all add: less.hyps)
      done
  qed
qed

lemma ctr_update_out_ctr:
  "reseed_ctr (gcry_drbg_ctr_update_out drbg reseed) = reseed_ctr drbg"
  by (simp add: gcry_drbg_ctr_update_out_def Let_def)

lemma ctr_update_ctr:
  "reseed_ctr (fst (snd (gcry_drbg_ctr_update w drbg addtl reseed))) = reseed_ctr drbg"
  by (simp add: gcry_drbg_ctr_update_def Let_def split_def ctr_update_out_ctr ctr_update_loop_ctr
        ctr_df_ctr split: option.splits)

lemma ctr_generate_frame:
  assumes "buflen \<le> length buf"
  shows "reseed_ctr (fst (snd (gcry_drbg_ctr_generate w drbg buf buflen addtl))) = reseed_ctr drbg
   \<and> length (fst (snd (snd (gcry_drbg_ctr_generate w drbg buf buflen addtl)))) = length buf
   \<and> drop buflen (fst (snd (snd (gcry_drbg_ctr_generate w drbg buf buflen addtl))))
       = drop buflen buf"
  using assms
  by (simp add: gcry_drbg_ctr_generate_def Let_def split_def ctr_update_ctr
        ctr_generate_loop_frame)

lemma ops_generate_frame:
  assumes "buflen \<le> length buf"
  shows "reseed_ctr (fst (snd (ops_generate w drbg buf buflen addtl))) = reseed_ctr drbg
   \<and> length (fst (snd (snd (ops_generate w drbg buf buflen addtl)))) = length buf
   \<and> drop buflen (fst (snd (snd (ops_generate w drbg buf buflen addtl)))) = drop buflen buf"
  using hmac_generate_frame [OF assms] hash_generate_frame [OF assms] ctr_generate_frame [OF assms]
  by (simp add: ops_generate_def split: gcry_drbg_state_ops.splits)


section \<open>Properties of the big-endian addition\<close>

lemma be_nat_Nil [simp]: "be_nat [] = 0" by (simp add: be_nat_def)
lemma be_nat_snoc [simp]: "be_nat (bs @ [b]) = be_nat bs * 256 + unat b"
  by (simp add: be_nat_def)

lemma be_nat_bound: "be_nat bs < 256 ^ length bs"
proof (induction bs rule: rev_induct)
  case Nil then show ?case by simp
next
  case (snoc b bs)
  have "unat b < 256" using unsigned_less [of b, where ?'a = nat] by simp
  with snoc show ?case by simp
qed

lemma be_nat_append: "be_nat (xs @ ys) = be_nat xs * 256 ^ length ys + be_nat ys"
  by (induction ys rule: rev_induct) (simp_all add: algebra_simps flip: append_assoc)

lemma byte_of_nat_mod: "unat (of_nat (n mod 256) :: byte) = n mod 256"
  by (simp add: unat_of_nat)

lemma mod_shift_low:
  fixes a b p q :: nat
  assumes "b < q"
  shows "(a * q + b) mod (q * p) = (a mod p) * q + b"
proof -
  have "(a * q + b) div q = a" using assms by simp
  moreover have "(a * q + b) mod q = b" using assms by simp
  ultimately show ?thesis by (simp add: mod_mult2_eq)
qed

lemma add_buf_loop1_correct:
  "length M = len \<Longrightarrow> length B = len \<Longrightarrow>
   \<exists>M' r'. add_buf_loop1 (A @ M @ D) (B @ E) (int (length A + len) - 1) (int len - 1) r len
             = (A @ M' @ D, int (length A) - 1, r')
          \<and> length M' = len
          \<and> be_nat M' + r' * 256 ^ len = be_nat M + be_nat B + r"
proof (induction len arbitrary: M B D E r)
  case 0
  then show ?case by simp
next
  case (Suc len)
  obtain M0 m where M: "M = M0 @ [m]" and lM0: "length M0 = len"
    using Suc.prems(1) by (metis length_Suc_conv_rev)
  obtain B0 b where B: "B = B0 @ [b]" and lB0: "length B0 = len"
    using Suc.prems(2) by (metis length_Suc_conv_rev)
  define s where "s = r + (unat m + unat b)"
  define m' :: byte where "m' = of_nat (s mod 256)"
  have i1: "nat (int (length A + Suc len) - 1) = length A + len" by simp
  have i2: "nat (int (Suc len) - 1) = len" by simp
  have dm: "(A @ M @ D) ! nat (int (length A + Suc len) - 1) = m"
    unfolding i1 using lM0 by (simp add: M nth_append)
  have ab: "(B @ E) ! nat (int (Suc len) - 1) = b"
    unfolding i2 using lB0 by (simp add: B nth_append)
  have upd: "(A @ M @ D)[nat (int (length A + Suc len) - 1) := m'] = A @ M0 @ ([m'] @ D)"
    unfolding i1 using lM0 by (simp add: M list_update_append)
  from Suc.IH [OF lM0 lB0, of "[m'] @ D" "[b] @ E" "s div 256"]
  obtain M0' r' where
    run: "add_buf_loop1 (A @ M0 @ [m'] @ D) (B0 @ [b] @ E) (int (length A + len) - 1) (int len - 1) (s div 256) len
          = (A @ M0' @ [m'] @ D, int (length A) - 1, r')"
    and l: "length M0' = len"
    and v: "be_nat M0' + r' * 256 ^ len = be_nat M0 + be_nat B0 + s div 256"
    by auto
  have step: "add_buf_loop1 (A @ M @ D) (B @ E) (int (length A + Suc len) - 1) (int (Suc len) - 1) r (Suc len)
      = add_buf_loop1 (A @ M0 @ [m'] @ D) (B0 @ [b] @ E) (int (length A + len) - 1) (int len - 1) (s div 256) len"
    using upd dm ab by (simp add: Let_def s_def m'_def B)
  have "unat m' = s mod 256" by (simp add: m'_def unat_of_nat)
  then have "be_nat (M0' @ [m']) + r' * 256 ^ Suc len = 256 * (be_nat M0' + r' * 256 ^ len) + s mod 256"
    by (simp add: algebra_simps)
  also have "\<dots> = 256 * (be_nat M0 + be_nat B0) + (256 * (s div 256) + s mod 256)"
    by (simp add: v algebra_simps)
  also have "\<dots> = be_nat M + be_nat B + r"
    by (simp add: M B s_def algebra_simps)
  finally have val: "be_nat (M0' @ [m']) + r' * 256 ^ Suc len = be_nat M + be_nat B + r" .
  show ?case
    apply (rule exI [of _ "M0' @ [m']"], rule exI [of _ r'])
    using step run l val by simp
qed

lemma add_buf_loop2_correct:
  "length A = len \<Longrightarrow> r \<le> 1 \<Longrightarrow>
   \<exists>A'. add_buf_loop2 (A @ D) (int len - 1) r len = A' @ D
        \<and> length A' = len
        \<and> be_nat A' = (be_nat A + r) mod 256 ^ len"
proof (induction len arbitrary: A D r)
  case 0
  then show ?case by simp
next
  case (Suc len)
  obtain A0 a where A: "A = A0 @ [a]" and lA0: "length A0 = len"
    using Suc.prems(1) by (metis length_Suc_conv_rev)
  show ?case
  proof (cases "r = 0")
    case True
    have "be_nat A < 256 ^ Suc len" using be_nat_bound [of A] Suc.prems(1) by simp
    then show ?thesis using True Suc.prems(1) by simp
  next
    case False
    then have r1: "r = 1" using Suc.prems(2) by simp
    define s where "s = unat a + 1"
    define a' :: byte where "a' = of_nat (s mod 256)"
    have "unat a < 256" using unsigned_less [of a, where ?'a = nat] by simp
    then have c: "s div 256 \<le> 1" by (simp add: s_def)
    have i2: "nat (int (Suc len) - 1) = len" by simp
    have da: "(A @ D) ! nat (int (Suc len) - 1) = a"
      unfolding i2 using lA0 by (simp add: A nth_append)
    have upd: "(A @ D)[nat (int (Suc len) - 1) := a'] = A0 @ ([a'] @ D)"
      unfolding i2 using lA0 by (simp add: A list_update_append)
    from Suc.IH [OF lA0 c, of "[a'] @ D"]
    obtain A0' where
      run: "add_buf_loop2 (A0 @ [a'] @ D) (int len - 1) (s div 256) len = A0' @ [a'] @ D"
      and l: "length A0' = len"
      and v: "be_nat A0' = (be_nat A0 + s div 256) mod 256 ^ len"
      by auto
    have step: "add_buf_loop2 (A @ D) (int (Suc len) - 1) r (Suc len)
        = add_buf_loop2 (A0 @ [a'] @ D) (int len - 1) (s div 256) len"
      using upd da r1 by (simp add: Let_def s_def a'_def)
    have ua: "unat a' = s mod 256" by (simp add: a'_def unat_of_nat)
    have "be_nat (A0' @ [a']) = 256 * ((be_nat A0 + s div 256) mod 256 ^ len) + s mod 256"
      by (simp add: v ua)
    also have "\<dots> = (256 * (be_nat A0 + s div 256)) mod 256 ^ Suc len + s mod 256"
      by (simp add: mult_mod_right)
    also have "\<dots> = (256 * (be_nat A0 + s div 256) + s mod 256) mod 256 ^ Suc len"
    proof -
      have lt: "256 * ((be_nat A0 + s div 256) mod 256 ^ len) + s mod 256 < 256 ^ Suc len"
      proof -
        define x where "x = (be_nat A0 + s div 256) mod 256 ^ len"
        define p :: nat where "p = 256 ^ len"
        have "x < p" by (simp add: x_def p_def)
        then have "x + 1 \<le> p" by linarith
        then have "256 * (x + 1) \<le> 256 * p"
          by (rule mult_le_mono2)
        moreover have "s mod 256 < 256" by simp
        ultimately have "256 * x + s mod 256 < 256 * p"
          by (metis add_less_cancel_left distrib_left_numeral less_le_trans mult.right_neutral)
        then show ?thesis by (simp add: x_def p_def)
      qed
      have "(256 * (be_nat A0 + s div 256) + s mod 256) mod 256 ^ Suc len
          = ((256 * (be_nat A0 + s div 256)) mod 256 ^ Suc len + s mod 256) mod 256 ^ Suc len"
        by (simp add: mod_add_left_eq)
      also have "\<dots> = (256 * (be_nat A0 + s div 256)) mod 256 ^ Suc len + s mod 256"
        using lt by (simp add: mult_mod_right)
      finally show ?thesis by simp
    qed
    also have "256 * (be_nat A0 + s div 256) + s mod 256 = be_nat A + r"
      by (simp add: A s_def r1 algebra_simps)
    finally have val: "be_nat (A0' @ [a']) = (be_nat A + r) mod 256 ^ Suc len" .
    show ?thesis
      apply (rule exI [of _ "A0' @ [a']"])
      using step run l val by simp
  qed
qed

text \<open>
  Claim C8. For a destination of \<open>dstlen\<close> bytes and an addend of \<open>addlen \<le> dstlen\<close>
  bytes, gcry_drbg_add_buf leaves in the destination the big-endian representation
  of (destination + addend) modulo \<open>256 ^ dstlen\<close>; the destination keeps its length.
\<close>

theorem add_buf_big_endian_sum:
  assumes "length dst = dstlen" and "length add = addlen" and "addlen \<le> dstlen"
  shows "length (gcry_drbg_add_buf dst dstlen add addlen) = dstlen
       \<and> be_nat (gcry_drbg_add_buf dst dstlen add addlen)
           = (be_nat dst + be_nat add) mod 256 ^ dstlen"
proof -
  define k where "k = dstlen - addlen"
  define A where "A = take k dst"
  define M where "M = drop k dst"
  have dst: "dst = A @ M" by (simp add: A_def M_def)
  have lA: "length A = k" using assms by (simp add: A_def k_def)
  have lM: "length M = addlen" using assms by (simp add: M_def k_def)
  from add_buf_loop1_correct [OF lM assms(2), of A "[]" "[]" 0]
  obtain M' r' where
    run1: "add_buf_loop1 dst add (int dstlen - 1) (int addlen - 1) 0 addlen = (A @ M', int k - 1, r')"
    and lM': "length M' = addlen"
    and v1: "be_nat M' + r' * 256 ^ addlen = be_nat M + be_nat add"
    using lA assms by (auto simp: dst k_def)
  have "be_nat M + be_nat add < 2 * 256 ^ addlen"
    using be_nat_bound [of M] be_nat_bound [of add] lM assms(2) by simp
  with v1 have "r' * 256 ^ addlen < 2 * 256 ^ addlen" by linarith
  then have "r' < 2" by (rule mult_less_cancel2 [THEN iffD1, THEN conjunct2])
  then have r': "r' \<le> 1" by simp
  from add_buf_loop2_correct [OF lA r', of M']
  obtain A' where
    run2: "add_buf_loop2 (A @ M') (int k - 1) r' k = A' @ M'"
    and lA': "length A' = k"
    and v2: "be_nat A' = (be_nat A + r') mod 256 ^ k"
    by auto
  have res: "gcry_drbg_add_buf dst dstlen add addlen = A' @ M'"
    by (simp add: gcry_drbg_add_buf_def run1 run2 flip: k_def)
  have dl: "dstlen = k + addlen" using assms by (simp add: k_def)
  have bM': "be_nat M' < 256 ^ addlen" using be_nat_bound [of M'] lM' by simp
  have "be_nat dst + be_nat add = be_nat A * 256 ^ addlen + (be_nat M + be_nat add)"
    using lM by (simp add: dst be_nat_append)
  also have "\<dots> = (be_nat A + r') * 256 ^ addlen + be_nat M'"
    by (simp add: v1 [symmetric] algebra_simps)
  finally have "(be_nat dst + be_nat add) mod 256 ^ dstlen
      = ((be_nat A + r') * 256 ^ addlen + be_nat M') mod (256 ^ addlen * 256 ^ k)"
    by (simp add: dl power_add mult.commute)
  also have "\<dots> = ((be_nat A + r') mod 256 ^ k) * 256 ^ addlen + be_nat M'"
    using bM' by (rule mod_shift_low)
  also have "\<dots> = be_nat (A' @ M')"
    by (simp add: be_nat_append v2 lM')
  finally show ?thesis using res lA' lM' dl by simp
qed


theorem add_buf_big_endian_sum_witness:
  "length [0xFF, 0xFF, 0xFE :: byte] = 3 \<and> length [0x01, 0x03 :: byte] = 2 \<and> (2::nat) \<le> 3
   \<and> length (gcry_drbg_add_buf [0xFF, 0xFF, 0xFE] 3 [0x01, 0x03] 2) = 3
   \<and> be_nat (gcry_drbg_add_buf [0xFF, 0xFF, 0xFE] 3 [0x01, 0x03] 2)
       = (be_nat [0xFF, 0xFF, 0xFE] + be_nat [0x01, 0x03]) mod 256 ^ 3"
  using add_buf_big_endian_sum [of "[0xFF, 0xFF, 0xFE]" 3 "[0x01, 0x03]" 2]
  by simp

section \<open>Argument checks of gcry_drbg_generate\<close>

text \<open>
  Claim C1. If the output buffer is NULL, or the requested length is 0 or larger than
  \<open>2 ^ 16\<close>, or the length of the additional input exceeds the bound of the build
  (\<open>2 ^ 35\<close> with 64-bit sizes, \<^verbatim>\<open>SIZE_MAX - 1\<close> otherwise), then gcry_drbg_generate returns
  the invalid-argument code and leaves the output buffer, the handle, the caller's
  string and the world as they were. The length of the additional input is the
  \<^verbatim>\<open>len\<close> field of the string the caller passes.
\<close>

theorem generate_rejects_bad_arguments:
  assumes "buf = None \<or> buflen = 0 \<or> 2 ^ 16 < buflen
           \<or> (\<exists>a. addtl = Some a \<and> (if LP64 w then 2 ^ 35 else SIZE_MAX w - 1) < str_len a)"
  shows "gcry_drbg_generate w drbg buf buflen addtl = (GPG_ERR_INV_ARG, drbg, buf, addtl, w)
         \<and> GPG_ERR_INV_ARG \<noteq> 0"
  using assms
  by (auto simp: gcry_drbg_generate_def gcry_drbg_max_request_bytes_def gcry_drbg_max_addtl_def
                 GPG_ERR_INV_ARG_def
           split: option.splits)

theorem generate_rejects_bad_arguments_witness:
  "(Some [0, 0] = (None :: bytes option) \<or> (65537 :: nat) = 0 \<or> (2 :: nat) ^ 16 < 65537
      \<or> (\<exists>a. (None :: gcry_drbg_string option) = Some a
              \<and> (if LP64 example_world then 2 ^ 35 else SIZE_MAX example_world - 1) < str_len a))
   \<and> gcry_drbg_generate example_world zeroed_state (Some [0, 0]) 65537 None
       = (GPG_ERR_INV_ARG, zeroed_state, Some [0, 0], None, example_world)
   \<and> GPG_ERR_INV_ARG \<noteq> 0"
  using generate_rejects_bad_arguments [of "Some [0, 0]" 65537 None example_world zeroed_state]
  by simp

section \<open>The block-encryption adapter\<close>

lemma sym_mismatch_returns_zero:
  assumes "cipher_open_rc w = []"
    and "gcry_drbg_blocklen drbg \<noteq> cipher_get_algo_blklen w (core_backend_cipher (core drbg))
         \<or> gcry_drbg_blocklen drbg < str_len buf"
  shows "gcry_drbg_sym w drbg key buf = (0, None, w)"
  using assms
  by (auto simp: gcry_drbg_sym_def gcry_cipher_open_def next_rc_def GPG_ERR_NO_ERROR_def)

text \<open>
  Claim C9. The claim asks for a return value distinct from the success code 0 when
  the block length of the backend cipher differs from the block length of the
  mechanism. The adapter returns \<^verbatim>\<open>-GPG_ERR_NO_ERROR\<close>, which is 0: with an AES-128 core
  (block length 16) and a backend that reports 8, it reports success and writes no
  output block.
\<close>

theorem sym_blocklen_mismatch_returns_success:
  "gcry_drbg_sym (lib misconfigured_world) (zeroed_state\<lparr>core := CORE_CTR_AES128\<rparr>)
     (replicate 16 0) (gcry_drbg_string_fill (Some (replicate 16 0)) 16)
   = (0, None, lib misconfigured_world)"
  by (rule sym_mismatch_returns_zero)
     (simp_all add: misconfigured_world_def example_world_def gcry_drbg_blocklen_def)

section \<open>The known-answer check of one vector\<close>

lemma cavs_error_keeps_buffer:
  assumes "gcry_drbg_cavs_test w test buf = (ret, buf', w')" and "ret \<noteq> 0"
  shows "buf' = buf"
  using assms
  by (auto simp: gcry_drbg_cavs_test_def Let_def split: prod.splits option.splits if_splits)

text \<open>
  Claim C10. Once its buffer is allocated, gcry_drbg_healthcheck_one returns the result
  of comparing the expected bytes with the buffer gcry_drbg_cavs_test leaves, whatever
  code gcry_drbg_cavs_test returned; and when that code is an error, the buffer is
  still the zero-filled one, so the failure shows only if the expected bytes are not
  all zero.
\<close>

theorem healthcheck_one_verdict_is_memcmp:
  assumes "xcalloc_secure w = (True, w1)"
    and "gcry_drbg_cavs_test w1 test (replicate (tv_expectedlen test) 0) = (ret, buf, w2)"
  shows "gcry_drbg_healthcheck_one w test
           = (memcmp (tv_expected test) buf (tv_expectedlen test), w2)
         \<and> (ret \<noteq> 0 \<longrightarrow> buf = replicate (tv_expectedlen test) 0)"
  using assms cavs_error_keeps_buffer [OF assms(2)]
  by (simp add: gcry_drbg_healthcheck_one_def)

theorem healthcheck_one_verdict_is_memcmp_witness:
  "xcalloc_secure example_world = (True, example_world)
   \<and> gcry_drbg_cavs_test example_world unknown_algo_vector
        (replicate (tv_expectedlen unknown_algo_vector) 0)
      = (GPG_ERR_GENERAL, replicate (tv_expectedlen unknown_algo_vector) 0, example_world)
   \<and> gcry_drbg_healthcheck_one example_world unknown_algo_vector
      = (memcmp (tv_expected unknown_algo_vector)
           (replicate (tv_expectedlen unknown_algo_vector) 0)
           (tv_expectedlen unknown_algo_vector), example_world)
   \<and> GPG_ERR_GENERAL \<noteq> 0"
proof -
  have a: "xcalloc_secure example_world = (True, example_world)"
    by (simp add: xcalloc_secure_def example_world_def)
  have avail: "gcry_drbg_algo_available (tv_flags unknown_algo_vector) = (GPG_ERR_GENERAL, None)"
    by (simp add: gcry_drbg_algo_available_def gcry_drbg_cores_def unknown_algo_vector_def
          GCRY_DRBG_CIPHER_MASK_def GCRY_DRBG_CTR_MASK_def GCRY_DRBG_HASH_MASK_def
          GCRY_DRBG_TYPE_MASK_def GCRY_DRBG_CTRAES_def GCRY_DRBG_CTRSERPENT_def
          GCRY_DRBG_CTRTWOFISH_def GCRY_DRBG_HASHSHA1_def GCRY_DRBG_HASHSHA224_def
          GCRY_DRBG_HASHSHA256_def GCRY_DRBG_HASHSHA384_def GCRY_DRBG_HASHSHA512_def
          GCRY_DRBG_HMAC_def GCRY_DRBG_SYM128_def GCRY_DRBG_SYM192_def GCRY_DRBG_SYM256_def)
  have c: "gcry_drbg_cavs_test example_world unknown_algo_vector
             (replicate (tv_expectedlen unknown_algo_vector) 0)
           = (GPG_ERR_GENERAL, replicate (tv_expectedlen unknown_algo_vector) 0, example_world)"
    by (simp add: gcry_drbg_cavs_test_def avail)
  show ?thesis
    using healthcheck_one_verdict_is_memcmp [OF a c] a c by (simp add: GPG_ERR_GENERAL_def)
qed

section \<open>Reseeding inside gcry_drbg_generate\<close>



section \<open>The hash derivation function\<close>

lemma hash_df_loop_correct:
  assumes "md_open_rc w = []"
  shows "gcry_drbg_statelen drbg + gcry_drbg_blocklen drbg \<le> length (scratchpad drbg)
    \<Longrightarrow> len \<le> outlen \<Longrightarrow> outlen \<le> length outval
    \<Longrightarrow> \<exists>sp. gcry_drbg_hash_df_loop w drbg entropy (c # gcry_drbg_cpu_to_be32 (outlen * 8))
               outval outlen len
             = (0, drbg\<lparr>scratchpad := sp\<rparr>,
                take len outval
                @ hash_df_spec (core_digest w drbg) (gcry_drbg_blocklen drbg) (chain_bytes entropy)
                    outlen c len
                @ drop outlen outval, w)
             \<and> length sp = length (scratchpad drbg)"
proof (induction "outlen - len" arbitrary: drbg len outval c rule: less_induct)
  case less
  let ?bl = "gcry_drbg_blocklen drbg"
  let ?sl = "gcry_drbg_statelen drbg"
  let ?pre = "gcry_drbg_cpu_to_be32 (outlen * 8)"
  show ?case
  proof (cases "len < outlen")
    case False
    then have "len = outlen" using less.prems by simp
    then show ?thesis
      by (intro exI [of _ "scratchpad drbg"])
         (simp add: gcry_drbg_hash_df_loop.simps hash_df_spec.simps)
  next
    case True
    define d where "d = core_digest w drbg (c # ?pre @ chain_bytes entropy)"
    define k where "k = (if ?bl < outlen - len then ?bl else outlen - len)"
    define drbg1 where "drbg1 = drbg\<lparr>scratchpad := buf_write (scratchpad drbg) ?sl d\<rparr>"
    define outval1 where "outval1 = buf_write outval len (take k d)"
    have ld: "length d = ?bl" by (simp add: d_def core_digest_def)
    have kpos: "0 < k" using True blocklen_pos [of drbg] by (simp add: k_def)
    have kle: "k \<le> ?bl" "len + k \<le> outlen" using True by (auto simp: k_def)
    have kmin: "k = min ?bl (outlen - len)" by (simp add: k_def min_def)
    have hm: "gcry_drbg_hmac w drbg None (Some (Str (Some (c # ?pre)) 5 entropy))
              = (0, Some d, w)"
      by (simp add: hmac_nokey_ok [OF assms] d_def core_digest_def chain_bytes_def length_be32
               split: option.splits)
    have rd: "buf_read (buf_write (scratchpad drbg) ?sl d) ?sl n = take n d" if "n \<le> ?bl" for n
      using less.prems(1) that ld by (simp add: buf_read_buf_write_same)
    have step: "gcry_drbg_hash_df_loop w drbg entropy (c # ?pre) outval outlen len
                = gcry_drbg_hash_df_loop w drbg1 entropy ((c + 1) # ?pre) outval1 outlen (len + k)"
      using True hm
      by (subst gcry_drbg_hash_df_loop.simps)
         (simp add: Let_def put_def drbg1_def k_def outval1_def rd)
    have core1: "core drbg1 = core drbg" by (simp add: drbg1_def)
    have bl1: "gcry_drbg_blocklen drbg1 = ?bl" "gcry_drbg_statelen drbg1 = ?sl"
      by (simp_all add: drbg1_def)
    have lsp1: "length (scratchpad drbg1) = length (scratchpad drbg)"
      unfolding drbg1_def using less.prems(1) ld by (simp add: length_buf_write)
    have lo1: "length outval1 = length outval"
      unfolding outval1_def using less.prems kle ld by (simp add: length_buf_write)
    have dig1: "core_digest w drbg1 = core_digest w drbg"
      by (rule ext) (simp add: core_digest_def core1 bl1)
    have dec: "outlen - (len + k) < outlen - len" using True kpos by arith
    from less.hyps [of "len + k" drbg1 outval1 "c + 1", OF dec]
    obtain sp where
      run: "gcry_drbg_hash_df_loop w drbg1 entropy ((c + 1) # ?pre) outval1 outlen (len + k)
            = (0, drbg1\<lparr>scratchpad := sp\<rparr>,
               take (len + k) outval1
               @ hash_df_spec (core_digest w drbg) ?bl (chain_bytes entropy) outlen (c + 1) (len + k)
               @ drop outlen outval1, w)"
      and lsp: "length sp = length (scratchpad drbg1)"
      using kpos kle True less.prems lsp1 lo1 bl1 dig1 by auto
    have t1: "take (len + k) outval1 = take len outval @ take k d"
      unfolding outval1_def using less.prems kle ld by (simp add: buf_write_def)
    have t2: "drop outlen outval1 = drop outlen outval"
      unfolding outval1_def using less.prems kle ld by (simp add: buf_write_def)
    have sp_unfold: "hash_df_spec (core_digest w drbg) ?bl (chain_bytes entropy) outlen c len
        = take k d @ hash_df_spec (core_digest w drbg) ?bl (chain_bytes entropy) outlen (c + 1) (len + k)"
      using True blocklen_pos [of drbg]
      by (subst hash_df_spec.simps) (simp add: kmin d_def)
    show ?thesis
      apply (rule exI [of _ sp])
      using step run lsp lsp1 t1 t2 sp_unfold by (simp add: drbg1_def)
  qed
qed


lemma length_hash_df_spec:
  assumes "\<And>m. length (H m) = bl" and "0 < bl"
  shows "p \<le> L \<Longrightarrow> length (hash_df_spec H bl inp L c p) = L - p"
proof (induction "L - p" arbitrary: p c rule: less_induct)
  case less
  show ?case
  proof (cases "p < L")
    case False
    then show ?thesis using less.prems by (simp add: hash_df_spec.simps)
  next
    case True
    define k where "k = min bl (L - p)"
    have k: "0 < k" "p + k \<le> L" using True assms(2) by (auto simp: k_def)
    have dec: "L - (p + k) < L - p" using True k by arith
    have rest: "length (hash_df_spec H bl inp L (c + 1) (p + k)) = L - (p + k)"
      using less.hyps [OF dec] k by simp
    have unf: "hash_df_spec H bl inp L c p
               = take k (H ([c] @ gcry_drbg_cpu_to_be32 (L * 8) @ inp))
                 @ hash_df_spec H bl inp L (c + 1) (p + k)"
      using True assms(2) by (subst hash_df_spec.simps) (simp add: k_def)
    have "k \<le> bl" by (simp add: k_def)
    then show ?thesis
      using rest k assms(1) by (simp add: unf)
  qed
qed

lemma be_nat_cpu_to_be32: "be_nat (gcry_drbg_cpu_to_be32 n) = n mod 2 ^ 32"
proof -
  have u: "unat (of_nat (x mod 256) :: byte) = x mod 256" for x
    by (simp add: unat_of_nat)
  have "be_nat (gcry_drbg_cpu_to_be32 n)
        = ((n div 2 ^ 24 mod 256 * 256 + n div 2 ^ 16 mod 256) * 256 + n div 2 ^ 8 mod 256) * 256
          + n mod 256"
    by (simp add: gcry_drbg_cpu_to_be32_def be_nat_def u)
  also have "\<dots> = n mod 2 ^ 32"
  proof -
    have a: "n mod 65536 = 256 * (n div 256 mod 256) + n mod 256"
      using mod_mult2_eq [of n 256 256] by simp
    have b: "n mod 16777216 = 65536 * (n div 65536 mod 256) + n mod 65536"
      using mod_mult2_eq [of n 65536 256] by simp
    have c: "n mod 4294967296 = 16777216 * (n div 16777216 mod 256) + n mod 16777216"
      using mod_mult2_eq [of n 16777216 256] by simp
    show ?thesis by (simp add: a b c)
  qed
  finally show ?thesis .
qed

text \<open>
  Claim C4. When no digest call fails, gcry_drbg_hash_df returns 0 and has written
  exactly \<open>outlen\<close> bytes at the front of its output array, the rest of the array
  untouched: the bytes of Hash_df as specified, with the counter starting at 1 and
  the block delivered by the digest of the handle's core. The scratchpad has the size
  gcry_drbg_instantiate gives it and the output array holds at least \<open>outlen\<close> bytes.
  The four bytes after the counter are the big-endian encoding of \<open>outlen * 8\<close> as a
  32-bit value (lemma \<open>be_nat_cpu_to_be32\<close>).
\<close>

theorem hash_df_produces_spec:
  assumes "md_open_rc w = []"
    and "gcry_drbg_statelen drbg + gcry_drbg_blocklen drbg \<le> length (scratchpad drbg)"
    and "outlen \<le> length outval"
  shows "fst (gcry_drbg_hash_df w drbg outval outlen entropy) = 0
       \<and> fst (snd (snd (gcry_drbg_hash_df w drbg outval outlen entropy)))
           = hash_df_spec (core_digest w drbg) (gcry_drbg_blocklen drbg) (chain_bytes entropy)
               outlen 1 0
             @ drop outlen outval
       \<and> length (hash_df_spec (core_digest w drbg) (gcry_drbg_blocklen drbg) (chain_bytes entropy)
                   outlen 1 0) = outlen"
proof -
  let ?d0 = "drbg\<lparr>scratchpad := memset (scratchpad drbg) (gcry_drbg_statelen drbg) 0
                                     (gcry_drbg_blocklen drbg)\<rparr>"
  have l0: "gcry_drbg_statelen ?d0 + gcry_drbg_blocklen ?d0 \<le> length (scratchpad ?d0)"
    using assms(2) by (simp add: memset_def length_buf_write)
  have dg: "core_digest w ?d0 = core_digest w drbg"
    by (rule ext) (simp add: core_digest_def)
  from hash_df_loop_correct [OF assms(1) l0 _ assms(3), of 0 entropy 1]
  obtain sp where
    run: "gcry_drbg_hash_df_loop w ?d0 entropy (1 # gcry_drbg_cpu_to_be32 (outlen * 8))
            outval outlen 0
          = (0, ?d0\<lparr>scratchpad := sp\<rparr>,
             hash_df_spec (core_digest w drbg) (gcry_drbg_blocklen drbg) (chain_bytes entropy)
               outlen 1 0 @ drop outlen outval, w)"
    by (auto simp: dg)
  have len: "length (hash_df_spec (core_digest w drbg) (gcry_drbg_blocklen drbg)
                       (chain_bytes entropy) outlen 1 0) = outlen"
    using length_hash_df_spec [of "core_digest w drbg" "gcry_drbg_blocklen drbg" 0 outlen]
          blocklen_pos [of drbg]
    by (simp add: core_digest_def)
  show ?thesis
    using run len by (simp add: gcry_drbg_hash_df_def Let_def)
qed

theorem hash_df_produces_spec_witness:
  "md_open_rc (lib example_world) = []
   \<and> gcry_drbg_statelen (zeroed_state\<lparr>scratchpad := replicate 75 0\<rparr>)
       + gcry_drbg_blocklen (zeroed_state\<lparr>scratchpad := replicate 75 0\<rparr>)
       \<le> length (scratchpad (zeroed_state\<lparr>scratchpad := replicate 75 0\<rparr>))
   \<and> (55 :: nat) \<le> length (replicate 55 (0 :: byte))
   \<and> fst (gcry_drbg_hash_df (lib example_world) (zeroed_state\<lparr>scratchpad := replicate 75 0\<rparr>)
             (replicate 55 0) 55 None) = 0
   \<and> fst (snd (snd (gcry_drbg_hash_df (lib example_world) (zeroed_state\<lparr>scratchpad := replicate 75 0\<rparr>)
                       (replicate 55 0) 55 None)))
       = hash_df_spec (core_digest (lib example_world) (zeroed_state\<lparr>scratchpad := replicate 75 0\<rparr>))
           (gcry_drbg_blocklen (zeroed_state\<lparr>scratchpad := replicate 75 0\<rparr>))
           (chain_bytes None) 55 1 0
         @ drop 55 (replicate 55 0)"
  using hash_df_produces_spec
          [where w = "lib example_world" and drbg = "zeroed_state\<lparr>scratchpad := replicate 75 0\<rparr>"
             and outval = "replicate 55 0" and outlen = 55 and entropy = None]
  by (simp add: example_world_def zeroed_state_def gcry_drbg_statelen_def gcry_drbg_blocklen_def)

section \<open>Entropy requested by seeding\<close>

lemmas flag_defs =
  GCRY_DRBG_CIPHER_MASK_def GCRY_DRBG_CTR_MASK_def GCRY_DRBG_HASH_MASK_def
  GCRY_DRBG_TYPE_MASK_def GCRY_DRBG_CTRAES_def GCRY_DRBG_CTRSERPENT_def
  GCRY_DRBG_CTRTWOFISH_def GCRY_DRBG_HASHSHA1_def GCRY_DRBG_HASHSHA224_def
  GCRY_DRBG_HASHSHA256_def GCRY_DRBG_HASHSHA384_def GCRY_DRBG_HASHSHA512_def
  GCRY_DRBG_HMAC_def GCRY_DRBG_SYM128_def GCRY_DRBG_SYM192_def GCRY_DRBG_SYM256_def

lemma sec_strength_core:
  "gcry_drbg_sec_strength (core_flags c)
   = (case c of CORE_HASH_SHA1 \<Rightarrow> 16 | CORE_HMAC_SHA1 \<Rightarrow> 16 | CORE_CTR_AES128 \<Rightarrow> 16
      | CORE_CTR_AES192 \<Rightarrow> 24 | _ \<Rightarrow> 32)"
  by (cases c) (simp_all add: gcry_drbg_sec_strength_def flag_defs)

lemma sec_strength_values: "gcry_drbg_sec_strength (core_flags c) \<in> {16, 24, 32}"
  by (cases c) (simp_all add: gcry_drbg_sec_strength_def flag_defs)

lemma get_entropy_requests:
  assumes "\<not> (case test_data drbg of None \<Rightarrow> False | Some t \<Rightarrow> fail_seed_source t)"
  shows "entropy_requests (snd (snd (gcry_drbg_get_entropy w drbg buffer len)))
         = entropy_requests w @ [len]"
  using assms by (simp add: gcry_drbg_get_entropy_def split: prod.splits)

lemma seed_update_requests:
  "entropy_requests (snd (snd (snd (gcry_drbg_seed_update w drbg pers reseed data1))))
   = entropy_requests w"
  by (simp add: gcry_drbg_seed_update_def Let_def split: prod.splits)

lemma seed_requests:
  assumes "case test_data drbg of None \<Rightarrow> True | Some t \<Rightarrow> testentropy t = None \<and> \<not> fail_seed_source t"
    and "case pers of None \<Rightarrow> True | Some p \<Rightarrow> str_len p \<le> gcry_drbg_max_addtl w"
    and "calloc_null w = []"
  shows "entropy_requests (snd (snd (snd (gcry_drbg_seed w drbg pers reseed))))
         = entropy_requests w
           @ [if reseed = 0 then ((gcry_drbg_sec_strength (core_flags (core drbg)) + 1) div 2) * 3
              else gcry_drbg_sec_strength (core_flags (core drbg))]"
proof -
  have a: "\<not> (case pers of None \<Rightarrow> False | Some p \<Rightarrow> str_len p > gcry_drbg_max_addtl w)"
    using assms(2) by (auto split: option.splits)
  have b: "(case test_data drbg of None \<Rightarrow> None | Some t \<Rightarrow> testentropy t) = None"
    using assms(1) by (auto split: option.splits)
  have c: "\<not> (case test_data drbg of None \<Rightarrow> False | Some t \<Rightarrow> fail_seed_source t)"
    using assms(1) by (auto split: option.splits)
  have d: "xcalloc_secure w = (True, w)" using assms(3) by (simp add: xcalloc_secure_def)
  have e: "gcry_drbg_sec_strength (core_flags (core drbg)) \<noteq> 0"
    using sec_strength_values [of "core drbg"] by auto
  define n where "n = (if 0 = reseed then ((gcry_drbg_sec_strength (core_flags (core drbg)) + 1) div 2) * 3
                       else gcry_drbg_sec_strength (core_flags (core drbg)))"
  obtain ret ent w2 where g: "gcry_drbg_get_entropy w drbg (replicate n 0) n = (ret, ent, w2)"
    by (cases "gcry_drbg_get_entropy w drbg (replicate n 0) n") auto
  have w2: "entropy_requests w2 = entropy_requests w @ [n]"
    using get_entropy_requests [OF c, of w "replicate n 0" n] g by simp
  have "gcry_drbg_seed w drbg pers reseed
        = (if ret \<noteq> 0 then (ret, drbg, pers, w2)
           else gcry_drbg_seed_update w2 drbg pers reseed (gcry_drbg_string_fill (Some ent) n))"
    using a b d e g unfolding gcry_drbg_seed_def n_def
    by (cases "reseed = 0") (simp_all add: Let_def)
  then show ?thesis
    using w2 by (auto simp: seed_update_requests n_def)
qed


lemma core_has_family:
  "\<not> (core_flags c AND GCRY_DRBG_HMAC = 0 \<and> core_flags c AND GCRY_DRBG_HASH_MASK = 0
        \<and> core_flags c AND GCRY_DRBG_CTR_MASK = 0)"
  by (cases c) (simp_all add: flag_defs)

lemma requests_case:
  "entropy_requests (snd (snd (snd (case r of
      (ret, dr, p, w') \<Rightarrow> if ret \<noteq> 0 then (ret, f dr, p, w') else (0, dr, p, w')))))
   = entropy_requests (snd (snd (snd r)))"
  by (cases r) simp

lemma instantiate_requests:
  assumes "case test_data drbg of None \<Rightarrow> True | Some t \<Rightarrow> testentropy t = None \<and> \<not> fail_seed_source t"
    and "case pers of None \<Rightarrow> True | Some p \<Rightarrow> str_len p \<le> gcry_drbg_max_addtl w"
    and "calloc_null w = []"
  shows "entropy_requests (snd (snd (snd (gcry_drbg_instantiate w drbg pers coreref prflag))))
         = entropy_requests w
           @ [((gcry_drbg_sec_strength (core_flags (gcry_drbg_cores ! coreref)) + 1) div 2) * 3]"
proof -
  have d: "xcalloc_secure w = (True, w)" using assms(3) by (simp add: xcalloc_secure_def)
  have fam: "core_flags (gcry_drbg_cores ! coreref) AND GCRY_DRBG_HMAC = 0
             \<and> core_flags (gcry_drbg_cores ! coreref) AND GCRY_DRBG_HASH_MASK = 0
             \<and> core_flags (gcry_drbg_cores ! coreref) AND GCRY_DRBG_CTR_MASK = 0 \<longleftrightarrow> False"
    using core_has_family [of "gcry_drbg_cores ! coreref"] by simp
  show ?thesis
    unfolding gcry_drbg_instantiate_def
    by (simp add: Let_def d fam requests_case seed_requests assms)
qed

text \<open>
  Claim C7. When the entropy comes from the gatherer (no test entropy is injected, the
  seed source is not forced to fail), the personalisation string is not too long and
  the allocations succeed, gcry_drbg_instantiate makes exactly one request to the
  gatherer, for \<open>\<lceil>1.5 * s\<rceil>\<close> bytes, and a reseed makes exactly one request, for \<open>s\<close>
  bytes, where \<open>s\<close> is the security strength of the core, which is 16, 24 or 32.
\<close>

theorem seeding_entropy_lengths:
  assumes "case test_data drbg of None \<Rightarrow> True | Some t \<Rightarrow> testentropy t = None \<and> \<not> fail_seed_source t"
    and "case pers of None \<Rightarrow> True | Some p \<Rightarrow> str_len p \<le> gcry_drbg_max_addtl w"
    and "calloc_null w = []"
  shows "entropy_requests (snd (snd (snd (gcry_drbg_instantiate w drbg pers coreref prflag))))
           = entropy_requests w
             @ [(3 * gcry_drbg_sec_strength (core_flags (gcry_drbg_cores ! coreref)) + 1) div 2]
         \<and> entropy_requests (snd (snd (snd (gcry_drbg_reseed w drbg pers))))
           = entropy_requests w @ [gcry_drbg_sec_strength (core_flags (core drbg))]
         \<and> gcry_drbg_sec_strength (core_flags (gcry_drbg_cores ! coreref)) \<in> {16, 24, 32}
         \<and> gcry_drbg_sec_strength (core_flags (core drbg)) \<in> {16, 24, 32}"
proof -
  define s0 where "s0 = gcry_drbg_sec_strength (core_flags (gcry_drbg_cores ! coreref))"
  have v: "s0 \<in> {16, 24, 32}" unfolding s0_def by (rule sec_strength_values)
  then have r: "((s0 + 1) div 2) * 3 = (3 * s0 + 1) div 2" by auto
  show ?thesis
    using instantiate_requests [OF assms, of coreref prflag] seed_requests [OF assms, of 1]
          sec_strength_values [of "core drbg"] v r
    by (simp add: gcry_drbg_reseed_def s0_def)
qed

theorem seeding_entropy_lengths_witness:
  "(case test_data (zeroed_state\<lparr>core := CORE_CTR_AES192\<rparr>) of
      None \<Rightarrow> True | Some t \<Rightarrow> testentropy t = None \<and> \<not> fail_seed_source t)
   \<and> (case (None :: gcry_drbg_string option) of
         None \<Rightarrow> True | Some p \<Rightarrow> str_len p \<le> gcry_drbg_max_addtl example_world)
   \<and> calloc_null example_world = []
   \<and> entropy_requests (snd (snd (snd (gcry_drbg_instantiate example_world
                                           (zeroed_state\<lparr>core := CORE_CTR_AES192\<rparr>) None 9 False))))
       = [36]
   \<and> entropy_requests (snd (snd (snd (gcry_drbg_reseed example_world
                                           (zeroed_state\<lparr>core := CORE_CTR_AES192\<rparr>) None))))
       = [24]"
  using seeding_entropy_lengths
          [where drbg = "zeroed_state\<lparr>core := CORE_CTR_AES192\<rparr>" and pers = None
             and w = example_world and coreref = 9 and prflag = False]
  by (simp add: zeroed_state_def example_world_def gcry_drbg_cores_def
        gcry_drbg_sec_strength_def flag_defs)

section \<open>The splice in the CTR derivation function\<close>

lemma ctr_df_returned_chain:
  assumes "bytes_to_return \<le> 64"
  shows "\<exists>pad. fst (snd (snd (gcry_drbg_ctr_df w drbg df_off bytes_to_return addtl)))
           = string_splice addtl
               (Str (Some pad)
                  ((if (string_total_len addtl + 8 + 1) mod gcry_drbg_blocklen drbg \<noteq> 0
                    then gcry_drbg_blocklen drbg
                         - (string_total_len addtl + 8 + 1) mod gcry_drbg_blocklen drbg
                    else (string_total_len addtl + 8 + 1) mod gcry_drbg_blocklen drbg) + 1)
                  None)"
  using assms
  by (auto simp: gcry_drbg_ctr_df_def Let_def gcry_drbg_string_fill_def split: prod.splits)

lemma string_nodes_Suc: "\<exists>m. string_nodes s = Suc m"
  by (cases s) simp

lemma string_node_splice:
  "string_node (string_nodes a - 1) (string_splice a n)
   = Some (Str (str_buf (string_tail a)) (str_len (string_tail a)) (Some n))"
proof (induction a n rule: string_splice.induct)
  case (1 b l n)
  then show ?case by simp
next
  case (2 b l s n)
  obtain m where m: "string_nodes s = Suc m" using string_nodes_Suc by blast
  show ?case using 2 by (simp add: m)
qed

text \<open>
  Claim C6, as amended. gcry_drbg_ctr_df links its padding node S4 behind the last node
  of the caller's chain and does not undo it: whatever code it returns (for a
  requested length of at most 64 bytes, past the only return before the splice), the
  chain it hands back is the caller's chain with S4 behind its last node, so the
  \<^verbatim>\<open>next\<close> pointer of the caller's tail node points at S4, a local of the function that
  has returned.
\<close>

theorem ctr_df_leaves_padding_node_linked:
  assumes "bytes_to_return \<le> 64"
  shows "\<exists>S4. str_next S4 = None
            \<and> fst (snd (snd (gcry_drbg_ctr_df w drbg df_off bytes_to_return addtl)))
                = string_splice addtl S4
            \<and> string_node (string_nodes addtl - 1)
                  (fst (snd (snd (gcry_drbg_ctr_df w drbg df_off bytes_to_return addtl))))
                = Some (Str (str_buf (string_tail addtl)) (str_len (string_tail addtl)) (Some S4))"
proof -
  from ctr_df_returned_chain [OF assms, of w drbg df_off addtl]
  obtain pad n where
    r: "fst (snd (snd (gcry_drbg_ctr_df w drbg df_off bytes_to_return addtl)))
        = string_splice addtl (Str (Some pad) n None)"
    by blast
  show ?thesis
    using string_node_splice [of addtl "Str (Some pad) n None"]
    by (intro exI [of _ "Str (Some pad) n None"]) (simp add: r)
qed

text \<open>
  Claim C6, as stated, fails: after a call with a one-node chain, the \<^verbatim>\<open>next\<close> pointer
  of that node (the caller's tail) is not NULL.
\<close>

theorem ctr_df_tail_not_reset_counterexample:
  "str_next (fst (snd (snd (gcry_drbg_ctr_df (lib example_world) example_ctr_state 48 32
                              (Str (Some [0x01]) 1 None))))) \<noteq> None"
  using ctr_df_returned_chain [of 32 "lib example_world" example_ctr_state 48 "Str (Some [0x01]) 1 None"]
  by auto


theorem ctr_df_leaves_padding_node_linked_witness:
  "(32 :: nat) \<le> 64
   \<and> (\<exists>S4. str_next S4 = None
          \<and> fst (snd (snd (gcry_drbg_ctr_df (lib example_world) example_ctr_state 48 32
                               (Str (Some [0x01]) 1 None))))
              = string_splice (Str (Some [0x01]) 1 None) S4
          \<and> string_node (string_nodes (Str (Some [0x01]) 1 None) - 1)
                (fst (snd (snd (gcry_drbg_ctr_df (lib example_world) example_ctr_state 48 32
                                  (Str (Some [0x01]) 1 None)))))
              = Some (Str (str_buf (string_tail (Str (Some [0x01]) 1 None)))
                        (str_len (string_tail (Str (Some [0x01]) 1 None))) (Some S4)))"
  using ctr_df_leaves_padding_node_linked
          [where bytes_to_return = 32 and w = "lib example_world" and drbg = example_ctr_state
             and df_off = 48 and addtl = "Str (Some [0x01]) 1 None"]
  by simp

section \<open>Error returns of gcry_drbg_generate\<close>

lemma map_const_upt: "map (\<lambda>i. c) [0..<n] = replicate n c"
  by (induction n) (simp_all add: replicate_append_same)

lemma example_hmac_first_block:
  "gcry_drbg_hmac (lib failing_world) example_hmac_state (Some (replicate 20 0))
     (Some (gcry_drbg_string_fill (Some (replicate 20 1)) 20))
   = (0, Some (replicate 20 0), (lib example_world)\<lparr>md_open_rc := [GPG_ERR_ENOMEM]\<rparr>)"
  by (simp add: gcry_drbg_hmac_def gcry_md_open_def gcry_md_setkey_def next_rc_def
        failing_world_def example_world_def example_hmac_state_def gcry_drbg_blocklen_def
        map_const_upt)

lemma example_hmac_second_block:
  "gcry_drbg_hmac ((lib example_world)\<lparr>md_open_rc := [GPG_ERR_ENOMEM]\<rparr>)
     (example_hmac_state\<lparr>V := replicate 20 0\<rparr>) (Some (replicate 20 0))
     (Some (gcry_drbg_string_fill (Some (replicate 20 0)) 20))
   = (GPG_ERR_ENOMEM, None, (lib example_world)\<lparr>md_open_rc := []\<rparr>)"
  by (simp add: gcry_drbg_hmac_def gcry_md_open_def gcry_md_setkey_def next_rc_def
        GPG_ERR_ENOMEM_def)

lemma example_hmac_generate_loop:
  "gcry_drbg_hmac_generate_loop (lib failing_world) example_hmac_state (replicate 21 0xFF) 21 0
   = (GPG_ERR_ENOMEM, example_hmac_state\<lparr>V := replicate 20 0\<rparr>, replicate 20 0 @ [0xFF],
      (lib example_world)\<lparr>md_open_rc := []\<rparr>)"
proof -
  have s: "gcry_drbg_statelen example_hmac_state = 20" "gcry_drbg_blocklen example_hmac_state = 20"
    "V example_hmac_state = replicate 20 1" "C example_hmac_state = replicate 20 0"
    by (simp_all add: example_hmac_state_def gcry_drbg_statelen_def gcry_drbg_blocklen_def)
  have w1: "buf_write (replicate 20 (1 :: byte)) 0 (replicate 20 0) = replicate 20 0"
    by (simp add: buf_write_def)
  have r1: "buf_read (replicate 20 (0 :: byte)) 0 20 = replicate 20 0"
    by (simp add: buf_read_def)
  have w2: "buf_write (replicate 21 (0xFF :: byte)) 0 (replicate 20 0) = replicate 20 0 @ [0xFF]"
    by (simp add: buf_write_def)
  have nz: "GPG_ERR_ENOMEM \<noteq> 0" by (simp add: GPG_ERR_ENOMEM_def)
  show ?thesis
    apply (subst gcry_drbg_hmac_generate_loop.simps)
    apply (simp add: s example_hmac_first_block Let_def put_def w1 r1 w2)
    apply (subst gcry_drbg_hmac_generate_loop.simps)
    apply (simp add: s example_hmac_second_block Let_def put_def nz)
    done
qed


text \<open>
  Claim C3, as stated, fails. An HMAC-SHA1 handle is asked for 21 bytes in a world where
  the second digest call fails: gcry_drbg_generate returns the error, yet the request
  counter has gone from 1 to 2, V has been replaced, and the first 20 of the 21 bytes
  of the output buffer have been written.
\<close>

theorem generate_error_changes_state_counterexample:
  "fst (gcry_drbg_generate failing_world example_hmac_state (Some (replicate 21 0xFF)) 21 None)
     = GPG_ERR_ENOMEM
   \<and> GPG_ERR_ENOMEM \<noteq> 0
   \<and> reseed_ctr example_hmac_state = 1
   \<and> reseed_ctr (fst (snd (gcry_drbg_generate failing_world example_hmac_state
                                (Some (replicate 21 0xFF)) 21 None))) = 2
   \<and> V example_hmac_state = replicate 20 1
   \<and> V (fst (snd (gcry_drbg_generate failing_world example_hmac_state
                       (Some (replicate 21 0xFF)) 21 None))) = replicate 20 0
   \<and> fst (snd (snd (gcry_drbg_generate failing_world example_hmac_state
                         (Some (replicate 21 0xFF)) 21 None)))
       = Some (replicate 20 0 @ [0xFF])"
proof -
  have a: "LP64 failing_world"
    by (simp add: failing_world_def example_world_def)
  have nz: "GPG_ERR_ENOMEM \<noteq> 0" by (simp add: GPG_ERR_ENOMEM_def)
  have f: "d_ops example_hmac_state = gcry_drbg_hmac_ops" "reseed_ctr example_hmac_state = 1"
    "seeded example_hmac_state" "\<not> pr example_hmac_state"
    by (simp_all add: example_hmac_state_def)
  have m: "gcry_drbg_generate_mech failing_world example_hmac_state (replicate 21 0xFF) 21 None
           = (GPG_ERR_ENOMEM, example_hmac_state\<lparr>V := replicate 20 0, reseed_ctr := 2\<rparr>,
              replicate 20 0 @ [0xFF], None,
              failing_world\<lparr>lib := (lib example_world)\<lparr>md_open_rc := []\<rparr>\<rparr>)"
    by (simp add: gcry_drbg_generate_mech_def ops_generate_def gcry_drbg_hmac_generate_def
          addtl_present_def example_hmac_generate_loop Let_def SIZE_MAX_def a nz f)
  have g: "gcry_drbg_generate failing_world example_hmac_state (Some (replicate 21 0xFF)) 21 None
           = (GPG_ERR_ENOMEM, example_hmac_state\<lparr>V := replicate 20 0, reseed_ctr := 2\<rparr>,
              Some (replicate 20 0 @ [0xFF]), None,
              failing_world\<lparr>lib := (lib example_world)\<lparr>md_open_rc := []\<rparr>\<rparr>)"
    by (simp add: gcry_drbg_generate_def m gcry_drbg_max_request_bytes_def
          gcry_drbg_max_requests_def a f)
  have v: "V example_hmac_state = replicate 20 1" by (simp add: example_hmac_state_def)
  show ?thesis
    by (simp add: g nz f v)
qed

text \<open>
  Claim C3, as amended. Whatever gcry_drbg_generate returns, only the first \<open>buflen\<close>
  bytes of the output buffer can have changed: the buffer keeps its length and the
  bytes behind the requested ones. When the call passes the argument checks and needs
  no reseed, the request counter is incremented by one, whether the mechanism's
  generate succeeded or failed. (V, C and the bytes already produced are not restored
  on an error return.)
\<close>

theorem generate_writes_at_most_L_and_counts_requests:
  assumes "buflen \<le> length b"
  shows "(\<exists>b'. fst (snd (snd (gcry_drbg_generate w drbg (Some b) buflen addtl))) = Some b'
              \<and> length b' = length b \<and> drop buflen b' = drop buflen b)
       \<and> (0 < buflen \<and> buflen \<le> 2 ^ 16
            \<and> (case addtl of
                  None \<Rightarrow> True
                | Some a \<Rightarrow> str_len a \<le> gcry_drbg_max_addtl w
                            \<and> (str_buf a = None \<longrightarrow> str_len a = 0))
            \<and> \<not> pr drbg \<and> seeded drbg \<and> reseed_ctr drbg \<le> gcry_drbg_max_requests w
          \<longrightarrow> reseed_ctr (fst (snd (gcry_drbg_generate w drbg (Some b) buflen addtl)))
              = (reseed_ctr drbg + 1) mod (SIZE_MAX w + 1))"
proof -
  note fr = ops_generate_frame [OF assms]
  have one: "\<exists>b'. fst (snd (snd (gcry_drbg_generate w drbg (Some b) buflen addtl))) = Some b'
              \<and> length b' = length b \<and> drop buflen b' = drop buflen b"
    by (simp add: gcry_drbg_generate_def gcry_drbg_generate_mech_def Let_def split_def fr)
  have two: "reseed_ctr (fst (snd (gcry_drbg_generate w drbg (Some b) buflen addtl)))
              = (reseed_ctr drbg + 1) mod (SIZE_MAX w + 1)"
    if "0 < buflen" "buflen \<le> 2 ^ 16"
      "case addtl of None \<Rightarrow> True
       | Some a \<Rightarrow> str_len a \<le> gcry_drbg_max_addtl w \<and> (str_buf a = None \<longrightarrow> str_len a = 0)"
      "\<not> pr drbg" "seeded drbg" "reseed_ctr drbg \<le> gcry_drbg_max_requests w"
  proof -
    have c1: "\<not> (case addtl of None \<Rightarrow> False | Some a \<Rightarrow> str_buf a = None \<and> 0 < str_len a)"
      using that(3) by (auto split: option.splits)
    have c2: "\<not> (case addtl of None \<Rightarrow> False | Some a \<Rightarrow> str_len a > gcry_drbg_max_addtl w)"
      using that(3) by (auto split: option.splits)
    have c3: "\<not> buflen > gcry_drbg_max_request_bytes"
      using that(2) by (simp add: gcry_drbg_max_request_bytes_def)
    have c4: "0 \<noteq> buflen" "\<not> gcry_drbg_max_requests w < reseed_ctr drbg"
      using that by simp_all
    show ?thesis
      using c1 c2 c3 c4 that(4,5)
      by (simp add: gcry_drbg_generate_def gcry_drbg_generate_mech_def Let_def split_def fr)
  qed
  show ?thesis using one two by blast
qed

theorem generate_writes_at_most_L_and_counts_requests_witness:
  "(21 :: nat) \<le> length (replicate 21 (0xFF :: byte))
   \<and> (\<exists>b'. fst (snd (snd (gcry_drbg_generate failing_world example_hmac_state
                               (Some (replicate 21 0xFF)) 21 None))) = Some b'
            \<and> length b' = length (replicate 21 (0xFF :: byte))
            \<and> drop 21 b' = drop 21 (replicate 21 0xFF))
   \<and> (0 :: nat) < 21 \<and> (21 :: nat) \<le> 2 ^ 16
   \<and> \<not> pr example_hmac_state \<and> seeded example_hmac_state
   \<and> reseed_ctr example_hmac_state \<le> gcry_drbg_max_requests failing_world
   \<and> reseed_ctr (fst (snd (gcry_drbg_generate failing_world example_hmac_state
                                (Some (replicate 21 0xFF)) 21 None)))
       = (reseed_ctr example_hmac_state + 1) mod (SIZE_MAX failing_world + 1)"
proof -
  have f: "\<not> pr example_hmac_state" "seeded example_hmac_state"
    "reseed_ctr example_hmac_state \<le> gcry_drbg_max_requests failing_world"
    by (simp_all add: example_hmac_state_def gcry_drbg_max_requests_def failing_world_def
          example_world_def)
  show ?thesis
    using generate_writes_at_most_L_and_counts_requests
            [where buflen = 21 and b = "replicate 21 0xFF" and w = failing_world
               and drbg = example_hmac_state and addtl = None]
          f
    by simp
qed

end
